theory Spec2Isabelle
  imports Complex_Main "HOL-Library.Log_Nat" "HOL-Library.Multiset"
begin

section \<open>Strings and regular expressions\<close>

text \<open>
  A JavaScript string is modelled as a \<open>string\<close> (a list of 8-bit characters). The
  validators below only ever look for the ASCII digits \<open>0\<close>..\<open>9\<close> (the class
  \<open>\d\<close> of a JavaScript regular expression without the \<open>u\<close> flag) and the dot; every
  other character is "not a digit" for them, whatever its encoding.
\<close>

definition digit :: string where
  "digit = ''0123456789''"

definition isDigit :: "char \<Rightarrow> bool" where
  "isDigit c = (c \<in> set digit)"

text \<open>\<open>parseInt(c, 10)\<close> for a one-character string \<open>c\<close> that is a digit.\<close>

definition digitVal :: "char \<Rightarrow> nat" where
  "digitVal c = (of_char c :: nat) - 48"

text \<open>
  The regular expressions of the source are built from character classes (a class is
  given by the string of its members: \<open>[1-5]\<close> is \<open>Cls ''12345''\<close>, \<open>\d\<close> is
  \<open>Cls digit\<close>), sequence, alternation and \<open>*\<close> applied to a class (\<open>\d*\<close> is
  \<open>Many digit\<close>).
\<close>

datatype regex = Eps | Cls string | Seq regex regex | Alt regex regex | Many string

text \<open>\<open>many cls s\<close>: what can remain of \<open>s\<close> after \<open>cls*\<close> has matched a prefix.\<close>

fun many :: "string \<Rightarrow> string \<Rightarrow> string list" where
  "many cls [] = [[]]"
| "many cls (c # s) = (c # s) # (if c \<in> set cls then many cls s else [])"

text \<open>\<open>remainders r s\<close>: every suffix of \<open>s\<close> left after \<open>r\<close> has matched a prefix.\<close>

fun remainders :: "regex \<Rightarrow> string \<Rightarrow> string list" where
  "remainders Eps s = [s]"
| "remainders (Cls cls) s = (case s of [] \<Rightarrow> [] | c # t \<Rightarrow> if c \<in> set cls then [t] else [])"
| "remainders (Seq a b) s = concat (map (remainders b) (remainders a s))"
| "remainders (Alt a b) s = remainders a s @ remainders b s"
| "remainders (Many cls) s = many cls s"

text \<open>\<open>/^r/.test(s)\<close> and \<open>/^r$/.test(s)\<close>.\<close>

definition testPrefix :: "regex \<Rightarrow> string \<Rightarrow> bool" where
  "testPrefix r s = (remainders r s \<noteq> [])"

definition testWhole :: "regex \<Rightarrow> string \<Rightarrow> bool" where
  "testWhole r s = ([] \<in> set (remainders r s))"

text \<open>A literal such as \<open>6011\<close>; \<open>r?\<close>; \<open>r{n}\<close>; \<open>r{0,n}\<close>.\<close>

fun lit :: "string \<Rightarrow> regex" where
  "lit [] = Eps"
| "lit (c # s) = Seq (Cls [c]) (lit s)"

definition opt :: "regex \<Rightarrow> regex" where
  "opt r = Alt r Eps"

fun rep :: "nat \<Rightarrow> regex \<Rightarrow> regex" where
  "rep 0 r = Eps"
| "rep (Suc n) r = Seq r (rep n r)"

fun repUpTo :: "nat \<Rightarrow> regex \<Rightarrow> regex" where
  "repUpTo 0 r = Eps"
| "repUpTo (Suc n) r = opt (Seq r (repUpTo n r))"

section \<open>JavaScript numbers\<close>

text \<open>
  A \<open>number\<close> of JavaScript is an IEEE 754 binary64 value: a finite value (kept here as
  the rational it denotes, the two zeros not told apart), an infinity or NaN. The finite
  values are the rationals \<open>m * 2^e\<close> with \<open>|m| < 2^53\<close> and \<open>-1074 \<le> e \<le> 971\<close>;
  every arithmetic result is the exact result rounded to the nearest of them, a tie going
  to the even \<open>m\<close>, and a rounded result of magnitude \<open>2^1024\<close> or more (that is
  \<open>m * 2^e\<close> with \<open>e > 971\<close>, or with \<open>e = 971\<close> and \<open>m = 2^53\<close>) becoming an
  infinity.
\<close>

datatype number = Fin rat | PosInf | NegInf | NaN

definition pow2 :: "int \<Rightarrow> rat" where
  "pow2 e = (if 0 \<le> e then 2 ^ nat e else 1 / 2 ^ nat (- e))"

text \<open>\<open>ilog2 q\<close> is \<open>\<lfloor>log\<^sub>2 q\<rfloor>\<close> for \<open>q > 0\<close>.\<close>

definition ilog2 :: "rat \<Rightarrow> int" where
  "ilog2 q =
     (let (n, d) = quotient_of q;
          k = bitlen n - bitlen d
      in if pow2 k \<le> q then k else k - 1)"

definition roundHalfEven :: "rat \<Rightarrow> int" where
  "roundHalfEven x =
     (let f = \<lfloor>x\<rfloor>; r = x - of_int f
      in if r < 1 / 2 then f else if 1 / 2 < r then f + 1 else if even f then f else f + 1)"

definition round64 :: "rat \<Rightarrow> number" where
  "round64 q =
     (if q = 0 then Fin 0
      else let a = \<bar>q\<bar>;
               e = max (ilog2 a - 52) (- 1074);
               m = roundHalfEven (a / pow2 e);
               r = of_int m * pow2 e
           in if 971 < e \<or> (e = 971 \<and> 2 ^ 53 \<le> m) then (if q < 0 then NegInf else PosInf)
              else Fin (if q < 0 then - r else r))"

text \<open>The rationals that are finite values of the type.\<close>

definition isDouble :: "rat \<Rightarrow> bool" where
  "isDouble q =
     (\<exists>m e. \<bar>m\<bar> < 2 ^ 53 \<and> - 1074 \<le> e \<and> e \<le> 971 \<and> q = of_int m * pow2 e)"

text \<open>The operator \<open>+\<close> on numbers.\<close>

fun numAdd :: "number \<Rightarrow> number \<Rightarrow> number" where
  "numAdd NaN y = NaN"
| "numAdd x NaN = NaN"
| "numAdd PosInf NegInf = NaN"
| "numAdd NegInf PosInf = NaN"
| "numAdd PosInf y = PosInf"
| "numAdd NegInf y = NegInf"
| "numAdd x PosInf = PosInf"
| "numAdd x NegInf = NegInf"
| "numAdd (Fin x) (Fin y) = round64 (x + y)"

text \<open>The operators \<open><\<close> and \<open><=\<close> on numbers; \<open>a > b\<close> is \<open>numLess b a\<close>.\<close>

fun numLess :: "number \<Rightarrow> number \<Rightarrow> bool" where
  "numLess NaN y = False"
| "numLess x NaN = False"
| "numLess (Fin x) (Fin y) = (x < y)"
| "numLess x NegInf = False"
| "numLess PosInf y = False"
| "numLess NegInf y = True"
| "numLess x PosInf = True"

fun numLessEq :: "number \<Rightarrow> number \<Rightarrow> bool" where
  "numLessEq NaN y = False"
| "numLessEq x NaN = False"
| "numLessEq x y = (x = y \<or> numLess x y)"

text \<open>
  The sum that the specification speaks of, "one exact arithmetic addition": the sum of
  the two values as rationals, with no rounding. It is not an operation of the source.
\<close>

fun exactSum :: "number \<Rightarrow> number \<Rightarrow> number" where
  "exactSum (Fin x) (Fin y) = Fin (x + y)"
| "exactSum x y = numAdd x y"

text \<open>
  \<open>parseFloat\<close>: leading white space is skipped (the ASCII white space and line
  terminators; the model has no others), then the longest prefix that is a decimal
  literal is read: a sign, \<open>Infinity\<close> or digits with an optional fraction, and an
  exponent when it has at least one digit. The value is rounded to a number. No such
  prefix gives NaN.
\<close>

definition isWhiteSpace :: "char \<Rightarrow> bool" where
  "isWhiteSpace c = (c \<in> set [CHR '' '', CHR 0x09, CHR 0x0A, CHR 0x0B, CHR 0x0C, CHR 0x0D])"

definition decimalValue :: "string \<Rightarrow> int" where
  "decimalValue ds = foldl (\<lambda>n c. 10 * n + int (digitVal c)) 0 ds"

definition pow10 :: "int \<Rightarrow> rat" where
  "pow10 e = (if 0 \<le> e then 10 ^ nat e else 1 / 10 ^ nat (- e))"

definition exponentPart :: "string \<Rightarrow> int" where
  "exponentPart s =
     (case s of
        [] \<Rightarrow> 0
      | c # t \<Rightarrow>
          if c = CHR ''e'' \<or> c = CHR ''E'' then
            (case t of
               [] \<Rightarrow> 0
             | sg # u \<Rightarrow>
                 if sg = CHR ''-'' then
                   (if takeWhile isDigit u = [] then 0 else - decimalValue (takeWhile isDigit u))
                 else if sg = CHR ''+'' then decimalValue (takeWhile isDigit u)
                 else decimalValue (takeWhile isDigit t))
          else 0)"

definition parseFloat :: "string \<Rightarrow> number" where
  "parseFloat s =
     (let t = dropWhile isWhiteSpace s;
          neg = (t \<noteq> [] \<and> hd t = CHR ''-'');
          t = (if t \<noteq> [] \<and> (hd t = CHR ''-'' \<or> hd t = CHR ''+'') then tl t else t)
      in if take 8 t = ''Infinity'' then (if neg then NegInf else PosInf)
         else let ip = takeWhile isDigit t;
                  r1 = dropWhile isDigit t;
                  hasDot = (r1 \<noteq> [] \<and> hd r1 = CHR ''.'');
                  fp = (if hasDot then takeWhile isDigit (tl r1) else []);
                  r2 = (if hasDot then dropWhile isDigit (tl r1) else r1)
              in if ip = [] \<and> fp = [] then NaN
                 else let q = (of_int (decimalValue ip)
                               + of_int (decimalValue fp) / 10 ^ length fp) * pow10 (exponentPart r2)
                      in round64 (if neg then - q else q))"

section \<open>Card number validation (FundingModal.tsx)\<close>

text \<open>
  The body of the \<open>for\<close> loop of \<open>validateCardNumber\<close>, run over the digits from the
  last to the first: the first argument is the list of digits still to visit (so the
  reversed string), then the loop variables \<open>isEven\<close> and \<open>sum\<close> (here \<open>sumAcc\<close>, as
  \<open>sum\<close> is a constant of HOL).
\<close>

fun luhnLoop :: "string \<Rightarrow> bool \<Rightarrow> nat \<Rightarrow> nat" where
  "luhnLoop [] isEven sumAcc = sumAcc"
| "luhnLoop (c # cs) isEven sumAcc =
     (let digit = digitVal c;
          digit = (if isEven
                   then (let doubled = digit * 2 in if doubled > 9 then doubled - 9 else doubled)
                   else digit)
      in luhnLoop cs (\<not> isEven) (sumAcc + digit))"

text \<open>\<open>cardNumber.replace(/\D/g, "")\<close> keeps the digits.\<close>

definition validateCardNumber :: "string \<Rightarrow> bool" where
  "validateCardNumber cardNumber =
     (let digits = filter isDigit cardNumber
      in if length digits \<noteq> 16 then False
         else luhnLoop (rev digits) False 0 mod 10 = 0)"

text \<open>
  The check digit of a payload, as the specification words it ("a correct check digit
  computed by the same algorithm"): the one digit that, written after the payload, brings
  the sum of \<open>luhnLoop\<close> to a multiple of ten. The source has no such function; this
  definition only serves to state the property of \<open>validateCardNumber\<close>.
\<close>

definition luhnCheckDigit :: "string \<Rightarrow> char" where
  "luhnCheckDigit payload =
     char_of ((48::nat) + (10 - luhnLoop (rev (filter isDigit payload)) True 0 mod 10) mod 10)"

definition detectCardType :: "string \<Rightarrow> string option" where
  "detectCardType cardNumber =
     (let digits = filter isDigit cardNumber
      in if testPrefix (lit ''4'') digits then Some ''Visa''
         else if testPrefix (Seq (lit ''5'') (Cls ''12345'')) digits
               \<or> testPrefix
                    (Seq (lit ''2'')
                      (Alt (Seq (lit ''22'') (Cls ''123456789''))
                      (Alt (Seq (lit ''2'') (Seq (Cls ''3456789'') (Cls digit)))
                      (Alt (Seq (Cls ''3456'') (rep 2 (Cls digit)))
                      (Alt (Seq (lit ''7'') (Seq (Cls ''01'') (Cls digit)))
                           (lit ''720'')))))) digits
           then Some ''Mastercard''
         else if testPrefix (Seq (lit ''3'') (Cls ''47'')) digits then Some ''American Express''
         else if testPrefix
                   (Alt (lit ''6011'')
                   (Alt (lit ''65'')
                   (Alt (Seq (lit ''64'') (Cls ''456789''))
                        (lit ''622'')))) digits
           then Some ''Discover''
         else if testPrefix
                   (Alt (Seq (lit ''30'') (Cls ''012345''))
                   (Alt (lit ''36'')
                        (lit ''38''))) digits
           then Some ''Diners Club''
         else if testPrefix
                   (Seq (lit ''35'')
                     (Alt (Seq (lit ''2'') (Cls ''89''))
                          (Seq (Cls ''345678'') (Cls digit)))) digits
           then Some ''JCB''
         else None)"

section \<open>Form field validation (FundingModal.tsx)\<close>

text \<open>
  The fields of the funding form are registered with react-hook-form. For one text field
  the library checks, in this order and stopping at the first failure: \<open>required\<close> (the
  value is \<open>undefined\<close> or the empty string), \<open>pattern\<close> (only for a value that is not
  empty), then the functions of \<open>validate\<close> in the order they are written; a validate
  function returns \<open>true\<close> or the message. The result is the message of the first
  failure, \<open>None\<close> when the field is accepted. A value is \<open>None\<close> for \<open>undefined\<close>; the
  validate functions of this form treat \<open>undefined\<close> as they treat the empty string.
\<close>

fun firstError :: "(string \<Rightarrow> string option) list \<Rightarrow> string \<Rightarrow> string option" where
  "firstError [] v = None"
| "firstError (f # fs) v = (case f v of Some msg \<Rightarrow> Some msg | None \<Rightarrow> firstError fs v)"

definition validateField ::
  "string option \<Rightarrow> regex \<times> string \<Rightarrow> (string \<Rightarrow> string option) list
     \<Rightarrow> string option \<Rightarrow> string option" where
  "validateField required pattern validate value =
     (let v = (case value of None \<Rightarrow> [] | Some x \<Rightarrow> x)
      in if required \<noteq> None \<and> v = [] then required
         else if v \<noteq> [] \<and> \<not> testWhole (fst pattern) v then Some (snd pattern)
         else firstError validate v)"

subsection \<open>The amount\<close>

text \<open>\<open>/^(0|[1-9]\d*)(\.\d{0,2})?$/\<close>\<close>

definition amountPattern :: regex where
  "amountPattern =
     Seq (Alt (lit ''0'') (Seq (Cls ''123456789'') (Many digit)))
         (opt (Seq (lit ''.'') (repUpTo 2 (Cls digit))))"

definition minAmount :: "string \<Rightarrow> string option" where
  "minAmount value =
     (let amount = parseFloat value
      in if numLess (Fin 0) amount then None else Some ''Amount must be greater than $0.00'')"

definition maxAmount :: "string \<Rightarrow> string option" where
  "maxAmount value =
     (let amount = parseFloat value
      in if numLessEq amount (Fin 10000) then None else Some ''Amount cannot exceed $10,000'')"

definition noLeadingZeros :: "string \<Rightarrow> string option" where
  "noLeadingZeros value =
     (if \<not> testPrefix (Seq (lit ''0'') (Cls digit)) value then None
      else Some ''Amount cannot have leading zeros'')"

definition amountRules :: "string option \<Rightarrow> string option" where
  "amountRules value =
     validateField (Some ''Amount is required'')
       (amountPattern, ''Invalid amount format (no leading zeros)'')
       [minAmount, maxAmount, noLeadingZeros] value"

subsection \<open>The routing number\<close>

datatype fundingType = Card | Bank

definition notAllZeros :: "string \<Rightarrow> string option" where
  "notAllZeros value =
     (if value = [] then None
      else if value \<noteq> ''000000000'' then None else Some ''Invalid routing number'')"

definition routingNumberRules :: "fundingType \<Rightarrow> string option \<Rightarrow> string option" where
  "routingNumberRules fundingType value =
     validateField
       (if fundingType = Bank then Some ''Routing number is required for bank transfers'' else None)
       (rep 9 (Cls digit), ''Routing number must be exactly 9 digits'')
       [notAllZeros] value"

section \<open>Session expiry (auth-session.test.ts, security.test.ts)\<close>

text \<open>
  A \<open>Date\<close> is compared through its time value, the milliseconds since the epoch; the
  model keeps that integer.
\<close>

record session =
  token :: string
  sessionUserId :: int
  expiresAt :: int

text \<open>
  The validity expression of the session tests, \<open>expiresAt >= now\<close>
  (auth-session.test.ts, "Session Expiry Logic").
\<close>

definition isValid :: "session \<Rightarrow> int \<Rightarrow> bool" where
  "isValid s now = (expiresAt s \<ge> now)"

text \<open>The expression of security.test.ts, \<open>expiresAt <= now\<close>.\<close>

definition isExpiredOrAtExpiry :: "session \<Rightarrow> int \<Rightarrow> bool" where
  "isExpiredOrAtExpiry s now = (expiresAt s \<le> now)"

section \<open>The account router: data\<close>

text \<open>
  The rows of the two tables, with the fields the tests declare for \<open>Account\<close> and
  \<open>Transaction\<close>. The field \<open>id\<close> of an account is \<open>accId\<close> here and that of a
  transaction \<open>txId\<close>; \<open>type\<close> and \<open>status\<close> of a transaction are \<open>txType\<close> and
  \<open>txStatus\<close>. Identifiers are integers, time stamps are seconds.
\<close>

record account =
  accId :: int
  userId :: int
  accountNumber :: string
  accountType :: string
  balance :: number
  status :: string

record transaction =
  txId :: int
  accountId :: int
  txType :: string
  amount :: number
  description :: string
  txStatus :: string
  createdAt :: nat
  processedAt :: "nat option"

text \<open>A transaction with \<open>accountType\<close> added by the spread of \<open>getTransactions\<close>.\<close>

record enrichedTransaction = transaction +
  enrichedAccountType :: string

record store =
  accounts :: "account list"
  transactions :: "transaction list"
  nextAccountId :: int
  nextTransactionId :: int
  now :: nat

text \<open>
  Every statement sent to the database is awaited, and other requests and processes may
  change the database while this one waits. A \<open>world\<close> is the database, what the others
  will do to it before each of the coming statements of this request (\<open>others\<close>, one
  entry per statement, nothing once the list is used up), and the log of the statements
  this request has issued.
\<close>

datatype statement =
  SelectAccounts | InsertAccount | UpdateAccounts | SelectTransactions | InsertTransaction

record world =
  db :: store
  others :: "(store \<Rightarrow> store) list"
  queries :: "statement list"

definition await :: "statement \<Rightarrow> world \<Rightarrow> world" where
  "await q w =
     (case others w of
        [] \<Rightarrow> w\<lparr>queries := queries w @ [q]\<rparr>
      | f # fs \<Rightarrow> w\<lparr>db := f (db w), others := fs, queries := queries w @ [q]\<rparr>)"

text \<open>\<open>.get()\<close>: the first row of the result, or \<open>undefined\<close>.\<close>

definition get :: "'a list \<Rightarrow> 'a option" where
  "get rows = (case rows of [] \<Rightarrow> None | r # _ \<Rightarrow> Some r)"

text \<open>
  \<open>.orderBy(desc(transactions.createdAt))\<close>: the rows by decreasing \<open>createdAt\<close>, rows
  of the same instant in the order of the table.
\<close>

definition orderByDescCreatedAt :: "transaction list \<Rightarrow> transaction list" where
  "orderByDescCreatedAt rows = sort_key (\<lambda>t. - int (createdAt t)) rows"

datatype code = CONFLICT | NOT_FOUND | BAD_REQUEST | INTERNAL_SERVER_ERROR

text \<open>
  What a procedure throws: a \<open>TRPCError\<close> of its own, or the error of a statement that the
  database refused, which the procedure does not catch.
\<close>

datatype failure = TRPCError code string | SqliteError string

text \<open>
  Modelled from the spec: the schema of the tables (\<open>@/lib/db/schema\<close>) is not among the
  sources. The account number is unique ("10-digit numeric account number (unique)"), so
  the insert of a number already in the table is refused; the identifier is assigned by
  the database, and \<open>createdAt\<close> of a transaction is the time of the insert.
\<close>

definition insertAccountRow ::
  "int \<Rightarrow> string \<Rightarrow> string \<Rightarrow> number \<Rightarrow> string \<Rightarrow> store \<Rightarrow> string + store" where
  "insertAccountRow uid num ty bal st s =
     (if num \<in> set (map accountNumber (accounts s))
      then Inl ''UNIQUE constraint failed: accounts.account_number''
      else Inr (s\<lparr>accounts := accounts s @
                      [\<lparr>accId = nextAccountId s, userId = uid, accountNumber = num,
                        accountType = ty, balance = bal, status = st\<rparr>],
                   nextAccountId := nextAccountId s + 1\<rparr>))"

definition insertTransactionRow ::
  "int \<Rightarrow> string \<Rightarrow> number \<Rightarrow> string \<Rightarrow> string \<Rightarrow> nat \<Rightarrow> store \<Rightarrow> store" where
  "insertTransactionRow aid ty amt descr st processed s =
     s\<lparr>transactions := transactions s @
          [\<lparr>txId = nextTransactionId s, accountId = aid, txType = ty, amount = amt,
            description = descr, txStatus = st, createdAt = now s,
            processedAt = Some processed\<rparr>],
       nextTransactionId := nextTransactionId s + 1\<rparr>"

text \<open>\<open>db.update(accounts).set({ balance }).where(eq(accounts.id, aid))\<close>\<close>

definition updateBalance :: "int \<Rightarrow> number \<Rightarrow> store \<Rightarrow> store" where
  "updateBalance aid bal s =
     s\<lparr>accounts := map (\<lambda>a. if accId a = aid then a\<lparr>balance := bal\<rparr> else a) (accounts s)\<rparr>"

subsection \<open>Statements\<close>

text \<open>
  One awaited statement each: what it returns (or the error the database raises) and the
  world it leaves. \<open>selectTransactions\<close> is the query with
  \<open>.orderBy(desc(transactions.createdAt))\<close>, the only one the source sends to that table.
\<close>

definition selectAccounts :: "(account \<Rightarrow> bool) \<Rightarrow> world \<Rightarrow> account list \<times> world" where
  "selectAccounts cond w =
     (let w1 = await SelectAccounts w in (filter cond (accounts (db w1)), w1))"

definition selectTransactions ::
  "(transaction \<Rightarrow> bool) \<Rightarrow> world \<Rightarrow> transaction list \<times> world" where
  "selectTransactions cond w =
     (let w1 = await SelectTransactions w
      in (orderByDescCreatedAt (filter cond (transactions (db w1))), w1))"

definition insertAccount ::
  "int \<Rightarrow> string \<Rightarrow> string \<Rightarrow> number \<Rightarrow> string \<Rightarrow> world \<Rightarrow> (string + unit) \<times> world" where
  "insertAccount uid num ty bal st w =
     (let w1 = await InsertAccount w
      in case insertAccountRow uid num ty bal st (db w1) of
           Inl e \<Rightarrow> (Inl e, w1)
         | Inr s \<Rightarrow> (Inr (), w1\<lparr>db := s\<rparr>))"

definition insertTransaction ::
  "int \<Rightarrow> string \<Rightarrow> number \<Rightarrow> string \<Rightarrow> string \<Rightarrow> nat \<Rightarrow> world \<Rightarrow> world" where
  "insertTransaction aid ty amt descr st processed w =
     (let w1 = await InsertTransaction w
      in w1\<lparr>db := insertTransactionRow aid ty amt descr st processed (db w1)\<rparr>)"

definition updateAccounts :: "int \<Rightarrow> number \<Rightarrow> world \<Rightarrow> world" where
  "updateAccounts aid bal w =
     (let w1 = await UpdateAccounts w in w1\<lparr>db := updateBalance aid bal (db w1)\<rparr>)"

subsection \<open>What others may do meanwhile\<close>

text \<open>
  Another request that creates an account inserts its row as \<open>createAccount\<close> does; the
  script \<open>db:clear\<close> of the repository empties the tables.
\<close>

definition otherCreatesAccount :: "int \<Rightarrow> string \<Rightarrow> string \<Rightarrow> store \<Rightarrow> store" where
  "otherCreatesAccount uid num ty s =
     (case insertAccountRow uid num ty (Fin 0) ''active'' s of Inl e \<Rightarrow> s | Inr s' \<Rightarrow> s')"

definition dbClear :: "store \<Rightarrow> store" where
  "dbClear s = s\<lparr>accounts := [], transactions := []\<rparr>"

section \<open>The account router: procedures (part_001)\<close>

subsection \<open>generateAccountNumber\<close>

text \<open>
  The hash comes from \<open>bcrypt.hash\<close> over the time and a random number; the model takes
  the hashes of the successive calls as an input. \<open>accountNumberOf\<close> is what the function
  makes of one hash: \<open>hash.replace(/\D/g, "").slice(0, 10).padEnd(10, "0")\<close>.
\<close>

definition accountNumberOf :: "string \<Rightarrow> string" where
  "accountNumberOf hash =
     (let digits = filter isDigit hash;
          sliced = take 10 digits
      in sliced @ replicate (10 - length sliced) CHR ''0'')"

subsection \<open>createAccount\<close>

datatype accountTypeInput = Checking | Savings

fun accountTypeName :: "accountTypeInput \<Rightarrow> string" where
  "accountTypeName Checking = ''checking''"
| "accountTypeName Savings = ''savings''"

text \<open>
  The \<open>while (!isUnique)\<close> loop. Each round takes the next hash; the loop ends with the
  first account number that the table does not hold. \<open>None\<close> is a loop still running when
  the hashes supplied are used up.
\<close>

fun uniqueLoop :: "string list \<Rightarrow> world \<Rightarrow> string option \<times> string list \<times> world" where
  "uniqueLoop [] w = (None, [], w)"
| "uniqueLoop (hash # hashes) w =
     (let accountNumber' = accountNumberOf hash;
          (rows, w1) = selectAccounts (\<lambda>a. accountNumber a = accountNumber') w;
          existing = get rows;
          isUnique = (existing = None)
      in if isUnique then (Some accountNumber', hashes, w1) else uniqueLoop hashes w1)"

text \<open>
  The statements after the loop: the insert, the fetch of the created account and the
  check of what was fetched.
\<close>

definition insertAndFetch ::
  "int \<Rightarrow> accountTypeInput \<Rightarrow> string \<Rightarrow> world \<Rightarrow> (failure + account) \<times> world" where
  "insertAndFetch ctxUserId inputAccountType accountNumber' w =
     (case insertAccount ctxUserId accountNumber' (accountTypeName inputAccountType)
             (Fin 0) ''active'' w of
        (Inl e, w1) \<Rightarrow> (Inl (SqliteError e), w1)
      | (Inr _, w1) \<Rightarrow>
          (let (rows, w2) = selectAccounts (\<lambda>a. accountNumber a = accountNumber') w1;
               account' = get rows
           in case account' of
                None \<Rightarrow> (Inl (TRPCError INTERNAL_SERVER_ERROR ''Failed to create account''), w2)
              | Some a \<Rightarrow> (Inr a, w2)))"

text \<open>
  The result is \<open>None\<close> when the loop does not end, otherwise what the procedure throws
  (\<open>Inl\<close>) or returns (\<open>Inr\<close>); the second component is the world it leaves.
\<close>

definition createAccount ::
  "int \<Rightarrow> accountTypeInput \<Rightarrow> string list \<Rightarrow> world \<Rightarrow> (failure + account) option \<times> world" where
  "createAccount ctxUserId inputAccountType hashes w =
     (let (rows, w1) =
            selectAccounts
              (\<lambda>a. userId a = ctxUserId \<and> accountType a = accountTypeName inputAccountType) w;
          existingAccount = get rows
      in if existingAccount \<noteq> None
         then (Some (Inl (TRPCError CONFLICT
                 (''You already have a '' @ accountTypeName inputAccountType @ '' account''))), w1)
         else
           (case uniqueLoop hashes w1 of
              (None, _, w2) \<Rightarrow> (None, w2)
            | (Some accountNumber', _, w2) \<Rightarrow>
                (let (res, w3) = insertAndFetch ctxUserId inputAccountType accountNumber' w2
                 in (Some res, w3))))"

subsection \<open>fundAccount\<close>

record fundingSource =
  fsType :: fundingType
  fsAccountNumber :: string
  routingNumber :: "string option"

record fundAccountInput =
  inAccountId :: int
  inAmount :: number
  inFundingSource :: fundingSource

text \<open>
  The input schema. The types of the record stand for \<open>z.number()\<close>, \<open>z.enum\<close>,
  \<open>z.string()\<close> and \<open>z.string().optional()\<close>; what is left to check is
  \<open>.positive()\<close>, which also rules NaN out.
\<close>

definition fundAccountSchema :: "fundAccountInput \<Rightarrow> bool" where
  "fundAccountSchema input = numLess (Fin 0) (inAmount input)"

fun fundingTypeName :: "fundingType \<Rightarrow> string" where
  "fundingTypeName Card = ''card''"
| "fundingTypeName Bank = ''bank''"

record fundAccountResult =
  resTransaction :: "transaction option"
  newBalance :: number

text \<open>
  The mutation. \<open>parseFloat(input.amount.toString())\<close> gives the number back as it is
  (the string of a number reads back as that number, \<open>"NaN"\<close> as NaN and \<open>"Infinity"\<close> as
  the infinity), so \<open>amount'\<close> is the amount of the input.
\<close>

definition fundAccount ::
  "int \<Rightarrow> fundAccountInput \<Rightarrow> world \<Rightarrow> (failure + fundAccountResult) \<times> world" where
  "fundAccount ctxUserId input w =
     (let amount' = inAmount input;
          (rows, w1) =
            selectAccounts (\<lambda>a. accId a = inAccountId input \<and> userId a = ctxUserId) w;
          account' = get rows
      in case account' of
           None \<Rightarrow> (Inl (TRPCError NOT_FOUND ''Account not found''), w1)
         | Some acc \<Rightarrow>
             if status acc \<noteq> ''active''
             then (Inl (TRPCError BAD_REQUEST ''Account is not active''), w1)
             else
               (let w2 = insertTransaction (inAccountId input) ''deposit'' amount'
                           (''Funding from '' @ fundingTypeName (fsType (inFundingSource input)))
                           ''completed'' (now (db w1)) w1;
                    (rows, w3) = selectTransactions (\<lambda>t. accountId t = inAccountId input) w2;
                    transaction' = get (take 1 rows);
                    w4 = updateAccounts (inAccountId input) (numAdd (balance acc) amount') w3
                in (Inr \<lparr>resTransaction = transaction',
                         newBalance = numAdd (balance acc) amount'\<rparr>, w4)))"

text \<open>
  The procedure as a caller reaches it: an input that the schema refuses is answered
  with \<open>BAD_REQUEST\<close> and the mutation does not run.
\<close>

definition fundAccountProcedure ::
  "int \<Rightarrow> fundAccountInput \<Rightarrow> world \<Rightarrow> (failure + fundAccountResult) \<times> world" where
  "fundAccountProcedure ctxUserId input w =
     (if fundAccountSchema input then fundAccount ctxUserId input w
      else (Inl (TRPCError BAD_REQUEST ''Input validation failed''), w))"

subsection \<open>getTransactions\<close>

definition getTransactions ::
  "int \<Rightarrow> int \<Rightarrow> world \<Rightarrow> (failure + enrichedTransaction list) \<times> world" where
  "getTransactions ctxUserId inputAccountId w =
     (let (rows, w1) =
            selectAccounts (\<lambda>a. accId a = inputAccountId \<and> userId a = ctxUserId) w;
          account' = get rows
      in case account' of
           None \<Rightarrow> (Inl (TRPCError NOT_FOUND ''Account not found''), w1)
         | Some acc \<Rightarrow>
             (let (accountTransactions, w2) =
                    selectTransactions (\<lambda>t. accountId t = inputAccountId) w1;
                  enrichedTransactions =
                    map (\<lambda>t. transaction.extend t
                                (enrichedTransaction.fields (accountType acc)))
                        accountTransactions
              in (Inr enrichedTransactions, w2)))"

section \<open>Example data\<close>

text \<open>
  A database with one checking account, number 1, of user 7, with the given status,
  balance and transactions, and a world on it with the given doings of others; a
  transaction of an account at an instant; a request to fund account 1.
\<close>

definition exampleStore :: "string \<Rightarrow> number \<Rightarrow> transaction list \<Rightarrow> store" where
  "exampleStore st bal txs =
     \<lparr>accounts = [\<lparr>accId = 1, userId = 7, accountNumber = ''1234567890'',
                    accountType = ''checking'', balance = bal, status = st\<rparr>],
      transactions = txs, nextAccountId = 2, nextTransactionId = 100, now = 1771495200\<rparr>"

definition exampleWorld ::
  "string \<Rightarrow> number \<Rightarrow> transaction list \<Rightarrow> (store \<Rightarrow> store) list \<Rightarrow> world" where
  "exampleWorld st bal txs fs = \<lparr>db = exampleStore st bal txs, others = fs, queries = []\<rparr>"

definition oneAccountWorld :: "number \<Rightarrow> world" where
  "oneAccountWorld bal = exampleWorld ''active'' bal [] []"

definition exampleTransaction :: "int \<Rightarrow> int \<Rightarrow> nat \<Rightarrow> transaction" where
  "exampleTransaction i aid t =
     \<lparr>txId = i, accountId = aid, txType = ''deposit'', amount = Fin 10,
      description = ''Funding from card'', txStatus = ''completed'', createdAt = t,
      processedAt = Some t\<rparr>"

definition deposit :: "fundingType \<Rightarrow> string option \<Rightarrow> number \<Rightarrow> fundAccountInput" where
  "deposit ty routing amt =
     \<lparr>inAccountId = 1, inAmount = amt,
      inFundingSource = \<lparr>fsType = ty, fsAccountNumber = ''4532015112830366'',
                         routingNumber = routing\<rparr>\<rparr>"

section \<open>Properties of the card number validators\<close>

lemma luhnLoop_acc: "luhnLoop cs e acc = acc + luhnLoop cs e 0"
proof (induction cs arbitrary: e acc)
  case Nil
  show ?case by simp
next
  case (Cons c cs)
  define d where "d = (if e then (if digitVal c * 2 > 9 then digitVal c * 2 - 9 else digitVal c * 2)
                       else digitVal c)"
  have step: "luhnLoop (c # cs) e a = luhnLoop cs (\<not> e) (a + d)" for a
    by (simp add: d_def Let_def)
  have "luhnLoop (c # cs) e acc = acc + d + luhnLoop cs (\<not> e) 0"
    unfolding step by (rule Cons.IH)
  moreover have "luhnLoop (c # cs) e 0 = d + luhnLoop cs (\<not> e) 0"
    unfolding step using Cons.IH [of "\<not> e" "0 + d"] by simp
  ultimately show ?case by simp
qed

lemma digitVal_char_of: "d < 10 \<Longrightarrow> digitVal (char_of (48 + d)) = d"
  by (simp add: digitVal_def)

lemma isDigit_char_of:
  assumes "d < 10"
  shows "isDigit (char_of ((48::nat) + d))"
proof -
  have "\<forall>k \<in> set [0..<10]. isDigit (char_of ((48::nat) + k))"
    by code_simp
  with assms show ?thesis by simp
qed

lemma filter_isDigit_id: "list_all isDigit s \<Longrightarrow> filter isDigit s = s"
  by (induction s) simp_all

text \<open>
  C7, as the code has it. \<open>validateCardNumber\<close> wants sixteen digits in all, so the
  payload that takes a check digit has fifteen: for every string of fifteen digits, the
  string with its check digit appended is accepted.
\<close>

theorem luhn_check_digit_accepted:
  assumes len: "length payload = 15" and digs: "list_all isDigit payload"
  shows "validateCardNumber (payload @ [luhnCheckDigit payload])"
proof -
  define S where "S = luhnLoop (rev payload) True 0"
  define d where "d = (10 - S mod 10) mod 10"
  have fp: "filter isDigit payload = payload"
    using digs by (rule filter_isDigit_id)
  have cd: "luhnCheckDigit payload = char_of (48 + d)"
    by (simp only: luhnCheckDigit_def fp S_def d_def)
  have dlt: "d < 10" by (simp add: d_def)
  have f: "filter isDigit (payload @ [luhnCheckDigit payload]) = payload @ [char_of (48 + d)]"
    using isDigit_char_of [OF dlt] by (simp add: fp cd)
  have "luhnLoop (rev (payload @ [char_of (48 + d)])) False 0 = d + S"
    using luhnLoop_acc [of "rev payload" True d]
    by (simp add: digitVal_char_of [OF dlt] S_def)
  moreover have "(d + S) mod 10 = 0"
  proof -
    have "(d + S) mod 10 = ((10 - S mod 10) + S mod 10) mod 10"
      unfolding d_def by (simp only: mod_add_eq mod_mod_trivial mod_add_left_eq mod_add_right_eq)
    also have "(10 - S mod 10) + S mod 10 = 10"
      by simp
    finally show ?thesis by simp
  qed
  ultimately have ok: "luhnLoop (rev (payload @ [char_of (48 + d)])) False 0 mod 10 = 0"
    by simp
  have l16: "length (payload @ [char_of (48 + d)]) = 16"
    using len by simp
  show ?thesis
    unfolding validateCardNumber_def f Let_def using ok l16 by simp
qed

theorem luhn_check_digit_accepted_witness:
  "length ''453201511283036'' = 15 \<and> list_all isDigit ''453201511283036''
   \<and> luhnCheckDigit ''453201511283036'' = CHR ''6''
   \<and> validateCardNumber ''4532015112830366''"
proof -
  have l: "length ''453201511283036'' = 15" by simp
  have d: "list_all isDigit ''453201511283036''" by code_simp
  have c: "luhnCheckDigit ''453201511283036'' = CHR ''6''" by code_simp
  have "validateCardNumber (''453201511283036'' @ [luhnCheckDigit ''453201511283036''])"
    by (rule luhn_check_digit_accepted [OF l d])
  then have "validateCardNumber ''4532015112830366''"
    unfolding c by simp
  with l d c show ?thesis by blast
qed

text \<open>
  C7, as stated, fails: a string of sixteen digits with its check digit
  appended has seventeen digits, and \<open>validateCardNumber\<close> refuses it for its length.
\<close>

theorem luhn_sixteen_plus_check_digit_rejected:
  "length ''4532015112830366'' = 16 \<and> list_all isDigit ''4532015112830366''
   \<and> \<not> validateCardNumber (''4532015112830366'' @ [luhnCheckDigit ''4532015112830366''])"
  by code_simp

text \<open>
  C8: \<open>detectCardType\<close> is a function of the card number alone, its value is no label or
  one of the six labels, and it gives the labels the specification lists for the six
  sample numbers.
\<close>

theorem detectCardType_samples:
  "detectCardType cardNumber \<in>
     {None, Some ''Visa'', Some ''Mastercard'', Some ''American Express'', Some ''Discover'',
      Some ''Diners Club'', Some ''JCB''}
   \<and> detectCardType ''4532015112830366'' = Some ''Visa''
   \<and> detectCardType ''3782822463100050'' = Some ''American Express''
   \<and> detectCardType ''6011111111111117'' = Some ''Discover''
   \<and> detectCardType ''3056930009020004'' = Some ''Diners Club''
   \<and> detectCardType ''3530111333300000'' = Some ''JCB''
   \<and> detectCardType ''9999999999999999'' = None"
proof -
  have range: "detectCardType cardNumber \<in>
     {None, Some ''Visa'', Some ''Mastercard'', Some ''American Express'', Some ''Discover'',
      Some ''Diners Club'', Some ''JCB''}"
    by (simp add: detectCardType_def Let_def del: lit.simps rep.simps)
  have visa: "detectCardType ''4532015112830366'' = Some ''Visa''" by code_simp
  have amex: "detectCardType ''3782822463100050'' = Some ''American Express''" by code_simp
  have discover: "detectCardType ''6011111111111117'' = Some ''Discover''" by code_simp
  have diners: "detectCardType ''3056930009020004'' = Some ''Diners Club''" by code_simp
  have jcb: "detectCardType ''3530111333300000'' = Some ''JCB''" by code_simp
  have none: "detectCardType ''9999999999999999'' = None" by code_simp
  from range visa amex discover diners jcb none show ?thesis by blast
qed

section \<open>Properties of the session expiry expressions\<close>

lemma isValid_iff: "isValid s t \<longleftrightarrow> t \<le> expiresAt s"
  by (simp add: isValid_def)

text \<open>
  C1: at the instant of expiry (here 2026-02-19T10:00:00Z, the instant of the tests) the
  validity expression of the session tests is true, while the expression of the security
  tests calls the same session expired.
\<close>

theorem isValid_at_expiry_instant:
  "isValid \<lparr>token = ''token-1'', sessionUserId = 1, expiresAt = 1771495200000\<rparr> 1771495200000
   \<and> isExpiredOrAtExpiry \<lparr>token = ''token-1'', sessionUserId = 1, expiresAt = 1771495200000\<rparr>
        1771495200000"
  by (simp add: isValid_def isExpiredOrAtExpiry_def)

section \<open>Properties of the numbers\<close>

lemma pow2_powi: "pow2 e = 2 powi e"
  by (simp add: pow2_def power_int_def inverse_eq_divide power_one_over)

lemma pow2_pos: "0 < pow2 e"
  by (simp add: pow2_powi)

lemma pow2_add: "pow2 (a + b) = pow2 a * pow2 b"
  by (simp add: pow2_powi power_int_add)

lemma pow2_nat: "0 \<le> e \<Longrightarrow> pow2 e = of_int (2 ^ nat e)"
  by (simp add: pow2_def)

lemma pow2_mono: "a \<le> b \<Longrightarrow> pow2 a \<le> pow2 b"
  by (simp add: pow2_powi power_int_increasing)

lemma pow2_strict_mono: "a < b \<Longrightarrow> pow2 a < pow2 b"
  by (simp add: pow2_powi power_int_strict_increasing)

lemma pow2_less_iff: "pow2 a < pow2 b \<longleftrightarrow> a < b"
  using pow2_mono [of b a] pow2_strict_mono [of a b] by (auto simp: not_less [symmetric])

lemma quotient_of_pos:
  assumes "0 < q" and "quotient_of q = (n, d)"
  shows "0 < n \<and> 0 < d \<and> q = of_int n / of_int d"
proof -
  have d: "0 < d" using assms(2) by (rule quotient_of_denom_pos)
  have q: "q = of_int n / of_int d"
    using assms(2) by (rule quotient_of_div)
  with assms(1) d have "0 < n"
    by (simp add: zero_less_divide_iff)
  with d q show ?thesis by simp
qed

lemma bitlen_pow2_bounds:
  assumes "0 < n"
  shows "pow2 (bitlen n - 1) \<le> of_int n \<and> of_int n < pow2 (bitlen n)"
proof -
  from assms have b1: "1 \<le> bitlen n"
    by (simp add: bitlen_alt_def)
  have "2 ^ nat (bitlen n - 1) \<le> n \<and> n < 2 ^ nat (bitlen n)"
    using assms by (rule bitlen_bounds)
  then have "(of_int (2 ^ nat (bitlen n - 1)) :: rat) \<le> of_int n
             \<and> (of_int n :: rat) < of_int (2 ^ nat (bitlen n))"
    by (simp only: of_int_le_iff of_int_less_iff)
  then show ?thesis
    using b1 by (simp add: pow2_nat)
qed

lemma ilog2_bounds:
  assumes "0 < q"
  shows "pow2 (ilog2 q) \<le> q \<and> q < pow2 (ilog2 q + 1)"
proof -
  obtain n d where nd: "quotient_of q = (n, d)"
    by (cases "quotient_of q")
  from quotient_of_pos [OF assms nd] have n: "0 < n" and d: "0 < d" and q: "q = of_int n / of_int d"
    by simp_all
  define k where "k = bitlen n - bitlen d"
  from bitlen_pow2_bounds [OF n] bitlen_pow2_bounds [OF d]
  have nl: "pow2 (bitlen n - 1) \<le> of_int n" and nu: "of_int n < pow2 (bitlen n)"
    and dl: "pow2 (bitlen d - 1) \<le> of_int d" and du: "of_int d < pow2 (bitlen d)"
    by simp_all
  have dpos: "(0::rat) < of_int d" using d by simp
  have up: "q < pow2 (k + 1)"
  proof -
    have "of_int n < pow2 (k + 1) * pow2 (bitlen d - 1)"
      using nu by (simp add: k_def pow2_add [symmetric])
    also have "\<dots> \<le> pow2 (k + 1) * of_int d"
      using dl pow2_pos [of "k + 1"] by simp
    finally show ?thesis
      unfolding q using dpos by (simp add: pos_divide_less_eq)
  qed
  have low: "pow2 (k - 1) \<le> q"
  proof -
    have "pow2 (k - 1) * of_int d \<le> pow2 (k - 1) * pow2 (bitlen d)"
      using du pow2_pos [of "k - 1"] by simp
    also have "\<dots> = pow2 (bitlen n - 1)"
      by (simp add: k_def pow2_add [symmetric])
    also have "\<dots> \<le> of_int n" by (rule nl)
    finally show ?thesis
      unfolding q using dpos by (simp add: pos_le_divide_eq)
  qed
  have il: "ilog2 q = (if pow2 k \<le> q then k else k - 1)"
    by (simp add: ilog2_def nd k_def Let_def)
  show ?thesis
  proof (cases "pow2 k \<le> q")
    case True
    with il up show ?thesis by simp
  next
    case False
    with il low show ?thesis by simp
  qed
qed

lemma ilog2_unique:
  assumes "0 < q" and "pow2 k \<le> q" and "q < pow2 (k + 1)"
  shows "ilog2 q = k"
proof -
  from ilog2_bounds [OF assms(1)]
  have l: "pow2 (ilog2 q) \<le> q" and u: "q < pow2 (ilog2 q + 1)" by simp_all
  from l assms(3) have "pow2 (ilog2 q) < pow2 (k + 1)" by simp
  then have a: "ilog2 q < k + 1" by (simp only: pow2_less_iff)
  from assms(2) u have "pow2 k < pow2 (ilog2 q + 1)" by simp
  then have b: "k < ilog2 q + 1" by (simp only: pow2_less_iff)
  from a b show ?thesis by simp
qed

lemma roundHalfEven_of_int: "roundHalfEven (of_int z) = z"
  by (simp add: roundHalfEven_def)

lemma round64_representable_pos:
  assumes m: "0 < m" "m < 2 ^ 53" and e: "- 1074 \<le> e" "e \<le> 971"
  shows "round64 (of_int m * pow2 e) = Fin (of_int m * pow2 e)"
    and "round64 (- (of_int m * pow2 e)) = Fin (- (of_int m * pow2 e))"
proof -
  define a where "a = (of_int m * pow2 e :: rat)"
  have apos: "0 < a"
    using m(1) pow2_pos [of e] by (simp add: a_def)
  define b where "b = bitlen m"
  have b1: "1 \<le> b" using m(1) by (simp add: b_def bitlen_alt_def)
  have b53: "b \<le> 53"
    using m(2) by (simp add: b_def bitlen_le_iff_power)
  from bitlen_pow2_bounds [OF m(1)]
  have ml: "pow2 (b - 1) \<le> of_int m" and mu: "of_int m < pow2 b"
    by (simp_all add: b_def)
  have "pow2 (b - 1 + e) \<le> a"
    unfolding a_def pow2_add using ml pow2_pos [of e] by simp
  moreover have "a < pow2 (b - 1 + e + 1)"
    unfolding a_def using mu pow2_pos [of e] by (simp add: pow2_add)
  ultimately have il: "ilog2 a = b - 1 + e"
    using apos by (intro ilog2_unique)
  define e' where "e' = max (ilog2 a - 52) (- 1074)"
  have e'le: "e' \<le> e" using b53 e(1) by (simp add: e'_def il)
  define z where "z = m * 2 ^ nat (e - e')"
  have "pow2 e = pow2 (e - e') * pow2 e'"
    by (simp add: pow2_add [symmetric])
  then have az: "a = of_int z * pow2 e'"
    using e'le by (simp add: a_def z_def pow2_nat)
  then have quot: "a / pow2 e' = of_int z"
    using pow2_pos [of e'] by simp
  have no_over: "\<not> (971 < e' \<or> (e' = 971 \<and> 2 ^ 53 \<le> z))"
  proof -
    have "z < 2 ^ 53" if "e' = 971"
    proof -
      from that e'le e(2) have "e = e'" by simp
      then show ?thesis using m(2) by (simp add: z_def)
    qed
    with e'le e(2) show ?thesis by auto
  qed
  have ne: "a \<noteq> 0" using apos by simp
  have pos: "round64 a = Fin a"
    using apos no_over
    by (simp add: round64_def Let_def e'_def [symmetric] quot roundHalfEven_of_int az [symmetric])
  have neg: "round64 (- a) = Fin (- a)"
    using apos no_over
    by (simp add: round64_def Let_def e'_def [symmetric] quot roundHalfEven_of_int az [symmetric])
  from pos show "round64 (of_int m * pow2 e) = Fin (of_int m * pow2 e)"
    by (simp add: a_def)
  from neg show "round64 (- (of_int m * pow2 e)) = Fin (- (of_int m * pow2 e))"
    by (simp add: a_def)
qed

text \<open>Rounding leaves the values of the type as they are.\<close>

lemma round64_mantissa_exponent:
  assumes "\<bar>m\<bar> < 2 ^ 53" and "- 1074 \<le> e" and "e \<le> 971"
  shows "round64 (of_int m * pow2 e) = Fin (of_int m * pow2 e)"
proof -
  consider "m = 0" | "0 < m" | "m < 0" by linarith
  then show ?thesis
  proof cases
    case 1
    then show ?thesis by (simp add: round64_def)
  next
    case 2
    with assms round64_representable_pos(1) [of m e] show ?thesis by simp
  next
    case 3
    with assms round64_representable_pos(2) [of "- m" e] show ?thesis by simp
  qed
qed

lemma round64_representable: "isDouble q \<Longrightarrow> round64 q = Fin q"
  by (auto simp: isDouble_def round64_mantissa_exponent)

lemma roundHalfEven_bounds:
  assumes "0 \<le> x"
  shows "0 \<le> roundHalfEven x \<and> roundHalfEven x \<le> \<lfloor>x\<rfloor> + 1"
proof -
  from assms have "0 \<le> \<lfloor>x\<rfloor>" by simp
  then show ?thesis by (simp add: roundHalfEven_def Let_def)
qed

lemma isDouble_mantissa:
  assumes z: "0 \<le> z" "z \<le> 2 ^ 53" and e: "- 1074 \<le> e" "e \<le> 971" and no: "\<not> (e = 971 \<and> 2 ^ 53 \<le> z)"
  shows "isDouble (of_int z * pow2 e) \<and> isDouble (- (of_int z * pow2 e))"
proof (cases "z = 2 ^ 53")
  case True
  with no e have e970: "e + 1 \<le> 971" by simp
  have "pow2 1 = 2" by (simp add: pow2_powi)
  then have "pow2 (e + 1) = 2 * pow2 e" by (simp add: pow2_add [of e 1])
  then have eq: "of_int z * pow2 e = of_int (2 ^ 52) * pow2 (e + 1)"
    using True by simp
  have "isDouble (of_int (2 ^ 52) * pow2 (e + 1))"
    unfolding isDouble_def using e970 e(1)
    by (intro exI [of _ "2 ^ 52"] exI [of _ "e + 1"]) simp
  moreover have "isDouble (- (of_int (2 ^ 52) * pow2 (e + 1)))"
    unfolding isDouble_def using e970 e(1)
    by (intro exI [of _ "- (2 ^ 52)"] exI [of _ "e + 1"]) simp
  ultimately show ?thesis unfolding eq by simp
next
  case False
  with z have lt: "z < 2 ^ 53" by simp
  have "isDouble (of_int z * pow2 e)"
    unfolding isDouble_def using lt z(1) e
    by (intro exI [of _ z] exI [of _ e]) simp
  moreover have "isDouble (- (of_int z * pow2 e))"
    unfolding isDouble_def using lt z(1) e
    by (intro exI [of _ "- z"] exI [of _ e]) simp
  ultimately show ?thesis by simp
qed

text \<open>Every finite result of rounding is a value of the type.\<close>

lemma round64_is_double:
  assumes "round64 q = Fin r"
  shows "isDouble r"
proof (cases "q = 0")
  case True
  with assms have "r = 0" by (simp add: round64_def)
  then show ?thesis
    unfolding isDouble_def by (intro exI [of _ 0] exI [of _ 0]) simp
next
  case False
  define a where "a = \<bar>q\<bar>"
  define e where "e = max (ilog2 a - 52) (- 1074)"
  define z where "z = roundHalfEven (a / pow2 e)"
  have apos: "0 < a" using False by (simp add: a_def)
  have r: "\<not> (971 < e \<or> (e = 971 \<and> 2 ^ 53 \<le> z))"
    and rv: "r = (if q < 0 then - (of_int z * pow2 e) else of_int z * pow2 e)"
    using assms False
    by (auto simp: round64_def Let_def a_def [symmetric] e_def [symmetric] z_def [symmetric]
        split: if_splits)
  have e1: "- 1074 \<le> e" by (simp add: e_def)
  have e2: "e \<le> 971" using r by simp
  have x0: "0 \<le> a / pow2 e" using apos pow2_pos [of e] by simp
  have "a < pow2 (ilog2 a + 1)" using ilog2_bounds [OF apos] by simp
  also have "\<dots> \<le> pow2 (53 + e)"
    by (rule pow2_mono) (simp add: e_def)
  also have "\<dots> = of_int (2 ^ 53) * pow2 e"
  proof -
    have "pow2 53 = 2 ^ 53" by (simp add: pow2_powi)
    then show ?thesis by (simp add: pow2_add [of 53 e])
  qed
  finally have "a / pow2 e < of_int (2 ^ 53)"
    using pow2_pos [of e] by (simp add: pos_divide_less_eq)
  then have "\<lfloor>a / pow2 e\<rfloor> < 2 ^ 53"
    by (simp only: floor_less_iff)
  with roundHalfEven_bounds [OF x0] have z: "0 \<le> z" "z \<le> 2 ^ 53"
    unfolding z_def by linarith+
  from r have no: "\<not> (e = 971 \<and> 2 ^ 53 \<le> z)" by simp
  from isDouble_mantissa [OF z e1 e2 no] show ?thesis
    unfolding rv by simp
qed


lemma roundHalfEven_nearest:
  "\<bar>x - of_int (roundHalfEven x)\<bar> \<le> \<bar>x - of_int n\<bar>"
proof -
  define f where "f = \<lfloor>x\<rfloor>"
  define r where "r = x - of_int f"
  have r0: "0 \<le> r" and r1: "r < 1"
    by (simp_all add: r_def f_def) linarith
  have x: "x = of_int f + r" by (simp add: r_def)
  have rh: "roundHalfEven x
              = (if r < 1 / 2 then f else if 1 / 2 < r then f + 1 else if even f then f else f + 1)"
    by (simp add: roundHalfEven_def Let_def f_def r_def)
  have near: "\<bar>x - of_int (roundHalfEven x)\<bar> \<le> r \<and> \<bar>x - of_int (roundHalfEven x)\<bar> \<le> 1 - r"
  proof (cases "r < 1 / 2")
    case True
    with rh have "x - of_int (roundHalfEven x) = r" by (simp add: r_def)
    with True r0 show ?thesis by simp
  next
    case False
    show ?thesis
    proof (cases "1 / 2 < r")
      case True
      with False rh have "x - of_int (roundHalfEven x) = r - 1" by (simp add: r_def)
      with True r1 show ?thesis by simp
    next
      case half: False
      with False have r: "r = 1 / 2" by simp
      from rh False half have "roundHalfEven x = f \<or> roundHalfEven x = f + 1"
        by (simp split: if_splits)
      then have "x - of_int (roundHalfEven x) = r \<or> x - of_int (roundHalfEven x) = r - 1"
        by (auto simp: r_def)
      then show ?thesis unfolding r by auto
    qed
  qed
  consider "n \<le> f" | "f + 1 \<le> n" by linarith
  then show ?thesis
  proof cases
    case 1
    then have "(of_int n :: rat) \<le> of_int f" by simp
    then have "r \<le> \<bar>x - of_int n\<bar>" unfolding x using r0 by linarith
    with near show ?thesis by linarith
  next
    case 2
    then have "(of_int f :: rat) + 1 \<le> of_int n"
      by (metis of_int_1 of_int_add of_int_le_iff)
    then have "1 - r \<le> \<bar>x - of_int n\<bar>" unfolding x using r1 by linarith
    with near show ?thesis by linarith
  qed
qed

text \<open>
  Rounding gives a nearest value of the type: no value of the type is closer to \<open>q\<close> than
  the finite result of \<open>round64 q\<close>.
\<close>

lemma isDouble_abs: "isDouble d \<Longrightarrow> isDouble \<bar>d\<bar>"
proof -
  assume "isDouble d"
  then obtain m e where me: "\<bar>m\<bar> < 2 ^ 53" "- 1074 \<le> e" "e \<le> 971" "d = of_int m * pow2 e"
    unfolding isDouble_def by blast
  have "\<bar>d\<bar> = of_int \<bar>m\<bar> * pow2 e"
    using pow2_pos [of e] by (simp add: me(4) abs_mult)
  with me(1-3) show ?thesis
    unfolding isDouble_def by (intro exI [of _ "\<bar>m\<bar>"] exI [of _ e]) simp
qed

lemma round64_nearest_pos:
  assumes apos: "0 < a" and d: "isDouble d" "0 \<le> d"
  defines "e \<equiv> max (ilog2 a - 52) (- 1074)"
  defines "z \<equiv> roundHalfEven (a / pow2 e)"
  shows "\<bar>a - of_int z * pow2 e\<bar> \<le> \<bar>a - d\<bar>"
proof -
  have pe: "0 < pow2 e" by (rule pow2_pos)
  have grid: "\<bar>a - of_int z * pow2 e\<bar> \<le> \<bar>a - of_int n * pow2 e\<bar>" for n
  proof -
    have "\<bar>a / pow2 e - of_int z\<bar> \<le> \<bar>a / pow2 e - of_int n\<bar>"
      unfolding z_def by (rule roundHalfEven_nearest)
    then have "\<bar>a / pow2 e - of_int z\<bar> * pow2 e \<le> \<bar>a / pow2 e - of_int n\<bar> * pow2 e"
      using pe by simp
    moreover have "\<bar>a / pow2 e - of_int k\<bar> * pow2 e = \<bar>a - of_int k * pow2 e\<bar>" for k
    proof -
      have "\<bar>a / pow2 e - of_int k\<bar> * pow2 e = \<bar>(a / pow2 e - of_int k) * pow2 e\<bar>"
        using pe by (simp add: abs_mult)
      also have "(a / pow2 e - of_int k) * pow2 e = a - of_int k * pow2 e"
        using pe by (simp add: field_simps)
      finally show ?thesis .
    qed
    ultimately show ?thesis by simp
  qed
  from d(1) obtain m e' where me: "\<bar>m\<bar> < 2 ^ 53" "- 1074 \<le> e'" "e' \<le> 971" "d = of_int m * pow2 e'"
    unfolding isDouble_def by blast
  show ?thesis
  proof (cases "e \<le> e'")
    case True
    have "pow2 e' = pow2 (e' - e) * pow2 e"
      by (simp add: pow2_add [symmetric])
    then have dd: "d = of_int (m * 2 ^ nat (e' - e)) * pow2 e"
      using True by (simp add: me(4) pow2_nat)
    show ?thesis unfolding dd by (rule grid)
  next
    case False
    then have lt: "e' + 1 \<le> e" by simp
    with me(2) have ek: "e = ilog2 a - 52" by (simp add: e_def)
    have p53: "pow2 53 = 2 ^ 53" by (simp add: pow2_powi)
    have "d \<le> \<bar>of_int m\<bar> * pow2 e'"
      using pow2_pos [of e'] by (simp add: me(4) mult_right_mono)
    also have "\<dots> < pow2 53 * pow2 e'"
    proof -
      have "\<bar>of_int m :: rat\<bar> < 2 ^ 53"
        using me(1) by (metis of_int_abs of_int_less_numeral_power_cancel_iff)
      then show ?thesis using pow2_pos [of e'] by (simp add: p53)
    qed
    also have "\<dots> = pow2 (53 + e')" by (simp add: pow2_add)
    also have "\<dots> \<le> pow2 (ilog2 a)"
      by (rule pow2_mono) (use lt ek in simp)
    finally have dk: "d < pow2 (ilog2 a)" .
    have ka: "pow2 (ilog2 a) \<le> a"
      using ilog2_bounds [OF apos] by simp
    have "pow2 (ilog2 a) = pow2 52 * pow2 e"
      by (simp add: pow2_add [symmetric] ek)
    also have "pow2 52 = of_int (2 ^ 52)" by (simp add: pow2_powi)
    finally have "\<bar>a - of_int z * pow2 e\<bar> \<le> \<bar>a - pow2 (ilog2 a)\<bar>"
      using grid [of "2 ^ 52"] by simp
    also have "\<dots> \<le> \<bar>a - d\<bar>"
      using dk ka by linarith
    finally show ?thesis .
  qed
qed

lemma round64_nearest:
  assumes r: "round64 q = Fin r" and d: "isDouble d"
  shows "\<bar>q - r\<bar> \<le> \<bar>q - d\<bar>"
proof (cases "q = 0")
  case True
  with r show ?thesis by (simp add: round64_def)
next
  case False
  define a where "a = \<bar>q\<bar>"
  define e where "e = max (ilog2 a - 52) (- 1074)"
  define z where "z = roundHalfEven (a / pow2 e)"
  have apos: "0 < a" using False by (simp add: a_def)
  have rv: "r = (if q < 0 then - (of_int z * pow2 e) else of_int z * pow2 e)"
    using r False
    by (auto simp: round64_def Let_def a_def [symmetric] e_def [symmetric] z_def [symmetric]
        split: if_splits)
  have z0: "0 \<le> z"
  proof -
    have "0 \<le> a / pow2 e" using apos pow2_pos [of e] by simp
    then show ?thesis unfolding z_def using roundHalfEven_bounds by blast
  qed
  have g: "\<bar>a - of_int z * pow2 e\<bar> \<le> \<bar>a - d'\<bar>" if "isDouble d'" "0 \<le> d'" for d'
    unfolding z_def e_def by (rule round64_nearest_pos [OF apos that])
  have neg: "isDouble (- d)"
  proof -
    from d obtain m e' where "\<bar>m\<bar> < 2 ^ 53" "- 1074 \<le> e'" "e' \<le> 971" "d = of_int m * pow2 e'"
      unfolding isDouble_def by blast
    then show ?thesis
      unfolding isDouble_def by (intro exI [of _ "- m"] exI [of _ e']) simp
  qed
  have zp: "0 \<le> of_int z * pow2 e"
    using z0 pow2_pos [of e] by simp
  show ?thesis
  proof (cases "q < 0")
    case True
    then have qa: "q = - a" by (simp add: a_def)
    from True rv have rr: "r = - (of_int z * pow2 e)" by simp
    have "\<bar>q - r\<bar> = \<bar>a - of_int z * pow2 e\<bar>"
      unfolding qa rr by simp
    also have "\<dots> \<le> \<bar>a - \<bar>d\<bar>\<bar>"
      by (rule g) (simp_all add: isDouble_abs d)
    also have "\<dots> \<le> \<bar>q - d\<bar>"
      unfolding qa using apos by linarith
    finally show ?thesis .
  next
    case pos: False
    then have qa: "q = a" by (simp add: a_def)
    from pos rv have rr: "r = of_int z * pow2 e" by simp
    have "\<bar>q - r\<bar> = \<bar>a - of_int z * pow2 e\<bar>"
      unfolding qa rr by simp
    also have "\<dots> \<le> \<bar>a - \<bar>d\<bar>\<bar>"
      by (rule g) (simp_all add: isDouble_abs d)
    also have "\<dots> \<le> \<bar>q - d\<bar>"
      unfolding qa using apos by linarith
    finally show ?thesis .
  qed
qed


lemma numAdd_exact: "isDouble (x + y) \<Longrightarrow> numAdd (Fin x) (Fin y) = Fin (x + y)"
  by (simp add: round64_representable)

lemma numAdd_is_double: "numAdd (Fin x) (Fin y) = Fin r \<Longrightarrow> isDouble r"
  by (simp add: round64_is_double)

lemma numAdd_nearest:
  "numAdd (Fin x) (Fin y) = Fin r \<Longrightarrow> isDouble d \<Longrightarrow> \<bar>x + y - r\<bar> \<le> \<bar>x + y - d\<bar>"
  by (simp add: round64_nearest)

lemma numLess_not_numLessEq: "numLess a b \<Longrightarrow> \<not> numLessEq b a"
  by (cases a; cases b) auto

lemma numLess_Fin_trans: "x \<le> y \<Longrightarrow> numLess (Fin y) c \<Longrightarrow> numLess (Fin x) c"
  by (cases c) auto

lemma parseFloat_Nil: "parseFloat [] = NaN"
  by (simp add: parseFloat_def)

section \<open>Properties of the amount field\<close>

lemma maxAmount_rule:
  "numLess (Fin 10000) (parseFloat value) \<Longrightarrow> maxAmount value = Some ''Amount cannot exceed $10,000''"
  using numLess_not_numLessEq [of "Fin 10000" "parseFloat value"] by (simp add: maxAmount_def)

text \<open>
  C10, as the code has it. The field refuses every string whose parsed value exceeds
  10000. When the string matches the pattern of the field, the rules before \<open>maxAmount\<close>
  pass and the message is that of \<open>maxAmount\<close>, a limit the specification does not state;
  when it does not match, validation stops at the pattern, \<open>maxAmount\<close> is not reached
  and the message is that of the pattern.
\<close>

theorem amountRules_upper_limit:
  assumes big: "numLess (Fin 10000) (parseFloat value)"
  shows "(testWhole amountPattern value
            \<longrightarrow> amountRules (Some value) = Some ''Amount cannot exceed $10,000'')
         \<and> (\<not> testWhole amountPattern value
              \<longrightarrow> amountRules (Some value) = Some ''Invalid amount format (no leading zeros)'')"
proof -
  have mx: "maxAmount value = Some ''Amount cannot exceed $10,000''"
    using big by (rule maxAmount_rule)
  have "numLess (Fin 0) (parseFloat value)"
    using big by (rule numLess_Fin_trans [rotated]) simp
  then have mn: "minAmount value = None"
    by (simp add: minAmount_def)
  have ne: "value \<noteq> []"
    using big by (auto simp: parseFloat_Nil)
  have limit: "amountRules (Some value) = Some ''Amount cannot exceed $10,000''"
    if "testWhole amountPattern value"
    using that ne mn mx by (simp add: amountRules_def validateField_def)
  have format: "amountRules (Some value) = Some ''Invalid amount format (no leading zeros)''"
    if "\<not> testWhole amountPattern value"
    using that ne by (simp add: amountRules_def validateField_def)
  from limit format show ?thesis by blast
qed

theorem amountRules_upper_limit_witness:
  "numLess (Fin 10000) (parseFloat ''10000.01'')
   \<and> testWhole amountPattern ''10000.01''
   \<and> amountRules (Some ''10000.01'') = Some ''Amount cannot exceed $10,000''
   \<and> numLess (Fin 10000) (parseFloat ''10000.001'')
   \<and> \<not> testWhole amountPattern ''10000.001''
   \<and> amountRules (Some ''10000.001'') = Some ''Invalid amount format (no leading zeros)''"
proof -
  have big: "numLess (Fin 10000) (parseFloat ''10000.01'')" by code_simp
  have pat: "testWhole amountPattern ''10000.01''" by code_simp
  have big': "numLess (Fin 10000) (parseFloat ''10000.001'')" by code_simp
  have pat': "\<not> testWhole amountPattern ''10000.001''" by code_simp
  have one: "amountRules (Some ''10000.01'') = Some ''Amount cannot exceed $10,000''"
    by (rule amountRules_upper_limit [OF big, THEN conjunct1, THEN mp, OF pat])
  have two: "amountRules (Some ''10000.001'') = Some ''Invalid amount format (no leading zeros)''"
    by (rule amountRules_upper_limit [OF big', THEN conjunct2, THEN mp, OF pat'])
  from big pat one big' pat' two show ?thesis by blast
qed

text \<open>
  C10, as stated, fails: the strings \<open>1e5\<close> and \<open>10000.001\<close> parse to values above 10000,
  and the field refuses them with the message of the pattern, not with that of
  \<open>maxAmount\<close>.
\<close>

theorem amountRules_pattern_message_first:
  "parseFloat ''1e5'' = Fin 100000
   \<and> numLess (Fin 10000) (parseFloat ''1e5'')
   \<and> amountRules (Some ''1e5'') = Some ''Invalid amount format (no leading zeros)''
   \<and> numLess (Fin 10000) (parseFloat ''10000.001'')
   \<and> amountRules (Some ''10000.001'') = Some ''Invalid amount format (no leading zeros)''
   \<and> ''Invalid amount format (no leading zeros)'' \<noteq> ''Amount cannot exceed $10,000''"
proof -
  have v: "parseFloat ''1e5'' = Fin 100000" by code_simp
  have big: "numLess (Fin 10000) (parseFloat ''1e5'')" unfolding v by simp
  have pat: "\<not> testWhole amountPattern ''1e5''" by code_simp
  have one: "amountRules (Some ''1e5'') = Some ''Invalid amount format (no leading zeros)''"
    using pat by (simp add: amountRules_def validateField_def)
  have big': "numLess (Fin 10000) (parseFloat ''10000.001'')" by code_simp
  have pat': "\<not> testWhole amountPattern ''10000.001''" by code_simp
  have two: "amountRules (Some ''10000.001'') = Some ''Invalid amount format (no leading zeros)''"
    using pat' by (simp add: amountRules_def validateField_def)
  have ne: "''Invalid amount format (no leading zeros)'' \<noteq> ''Amount cannot exceed $10,000''"
    by simp
  from v big one big' two ne show ?thesis by blast
qed

section \<open>Properties of the statements\<close>

lemma queries_await: "queries (await q w) = queries w @ [q]"
  by (simp add: await_def split: list.splits)

lemma await_alone: "others w = [] \<Longrightarrow> await q w = w\<lparr>queries := queries w @ [q]\<rparr>"
  by (simp add: await_def)

lemma db_await_alone: "others w = [] \<Longrightarrow> db (await q w) = db w"
  by (simp add: await_def)

lemma others_await_alone: "others w = [] \<Longrightarrow> others (await q w) = []"
  by (simp add: await_def)

lemma get_Some_mem: "get rows = Some r \<Longrightarrow> r \<in> set rows"
  by (cases rows) (simp_all add: get_def)

lemma get_map: "get (map f rows) = map_option f (get rows)"
  by (cases rows) (simp_all add: get_def)

lemma get_None_iff: "get rows = None \<longleftrightarrow> rows = []"
  by (cases rows) (simp_all add: get_def)

lemma filter_updateBalance:
  "filter (\<lambda>a. accId a = aid \<and> userId a = uid)
     (map (\<lambda>a. if accId a = aid then a\<lparr>balance := bal\<rparr> else a) rows)
   = map (\<lambda>a. a\<lparr>balance := bal\<rparr>) (filter (\<lambda>a. accId a = aid \<and> userId a = uid) rows)"
  by (induction rows) simp_all

section \<open>Properties of fundAccount\<close>

text \<open>
  C2, as the code has it. For an amount that the schema accepts and an account that is
  found and active, with nobody else at work: the balance returned is the one sum
  \<open>numAdd\<close> of the stored balance and the amount, and the account is stored with that
  balance. For finite values that sum, when finite, is a value of the type nearest to the
  exact sum, and it is the exact sum whenever the exact sum is a value of the type.
\<close>

theorem fundAccount_newBalance:
  assumes schema: "fundAccountSchema input"
    and alone: "others w = []"
    and found: "get (filter (\<lambda>a. accId a = inAccountId input \<and> userId a = uid) (accounts (db w)))
                  = Some acc"
    and active: "status acc = ''active''"
  shows "\<exists>r w'. fundAccountProcedure uid input w = (Inr r, w')
           \<and> newBalance r = numAdd (balance acc) (inAmount input)
           \<and> get (filter (\<lambda>a. accId a = inAccountId input \<and> userId a = uid) (accounts (db w')))
               = Some (acc\<lparr>balance := numAdd (balance acc) (inAmount input)\<rparr>)
           \<and> (\<forall>x y. balance acc = Fin x \<and> inAmount input = Fin y \<and> isDouble (x + y)
                  \<longrightarrow> newBalance r = Fin (x + y))
           \<and> (\<forall>x y s d. balance acc = Fin x \<and> inAmount input = Fin y \<and> newBalance r = Fin s
                    \<and> isDouble d
                  \<longrightarrow> isDouble s \<and> \<bar>x + y - s\<bar> \<le> \<bar>x + y - d\<bar>)"
proof -
  let ?P = "\<lambda>a. accId a = inAccountId input \<and> userId a = uid"
  let ?nb = "numAdd (balance acc) (inAmount input)"
  let ?w2 = "insertTransaction (inAccountId input) ''deposit'' (inAmount input)
               (''Funding from '' @ fundingTypeName (fsType (inFundingSource input)))
               ''completed'' (now (db w)) (await SelectAccounts w)"
  let ?sel = "selectTransactions (\<lambda>t. accountId t = inAccountId input) ?w2"
  define r where "r = \<lparr>resTransaction = get (take 1 (fst ?sel)), newBalance = ?nb\<rparr>"
  define w' where "w' = updateAccounts (inAccountId input) ?nb (snd ?sel)"
  have found': "get (fst (selectAccounts ?P w)) = Some acc"
    using found alone by (simp add: selectAccounts_def db_await_alone)
  have "fundAccount uid input w = (Inr r, w')"
    using found' active alone
    by (simp add: fundAccount_def Let_def case_prod_beta selectAccounts_def db_await_alone
        r_def w'_def)
  then have run: "fundAccountProcedure uid input w = (Inr r, w')"
    using schema by (simp add: fundAccountProcedure_def)
  have nb: "newBalance r = ?nb"
    by (simp add: r_def)
  have accs: "accounts (db w') =
                map (\<lambda>a. if accId a = inAccountId input then a\<lparr>balance := ?nb\<rparr> else a)
                    (accounts (db w))"
    unfolding w'_def using alone
    by (simp add: updateAccounts_def selectTransactions_def insertTransaction_def Let_def
        await_def updateBalance_def insertTransactionRow_def)
  have stored: "get (filter ?P (accounts (db w'))) = Some (acc\<lparr>balance := ?nb\<rparr>)"
    unfolding accs filter_updateBalance get_map using found by simp
  have exact: "\<forall>x y. balance acc = Fin x \<and> inAmount input = Fin y \<and> isDouble (x + y)
                  \<longrightarrow> newBalance r = Fin (x + y)"
  proof (intro allI impI)
    fix x y
    assume "balance acc = Fin x \<and> inAmount input = Fin y \<and> isDouble (x + y)"
    then have h1: "balance acc = Fin x" and h2: "inAmount input = Fin y"
      and h3: "isDouble (x + y)"
      by blast+
    show "newBalance r = Fin (x + y)"
      unfolding nb h1 h2 using h3 by (rule numAdd_exact)
  qed
  have nearest: "\<forall>x y s d. balance acc = Fin x \<and> inAmount input = Fin y \<and> newBalance r = Fin s
                    \<and> isDouble d
                  \<longrightarrow> isDouble s \<and> \<bar>x + y - s\<bar> \<le> \<bar>x + y - d\<bar>"
  proof (intro allI impI)
    fix x y s d
    assume "balance acc = Fin x \<and> inAmount input = Fin y \<and> newBalance r = Fin s \<and> isDouble d"
    then have h1: "balance acc = Fin x" and h2: "inAmount input = Fin y"
      and h3: "newBalance r = Fin s" and h4: "isDouble d"
      by blast+
    have sum: "numAdd (Fin x) (Fin y) = Fin s"
      using h3 unfolding nb h1 h2 .
    from numAdd_is_double [OF sum] numAdd_nearest [OF sum h4]
    show "isDouble s \<and> \<bar>x + y - s\<bar> \<le> \<bar>x + y - d\<bar>" by (rule conjI)
  qed
  show ?thesis
    by (intro exI [of _ r] exI [of _ w'] conjI) (fact run nb stored exact nearest)+
qed

lemma fundAccount_oneAccountWorld:
  "map_sum id newBalance (fst (fundAccount 7 (deposit ty routing amt) (oneAccountWorld bal)))
     = Inr (numAdd bal amt)
   \<and> map balance (accounts (db (snd (fundAccount 7 (deposit ty routing amt) (oneAccountWorld bal)))))
     = [numAdd bal amt]"
  by (simp add: fundAccount_def Let_def case_prod_beta selectAccounts_def
      selectTransactions_def insertTransaction_def updateAccounts_def await_def get_def
      oneAccountWorld_def exampleWorld_def exampleStore_def deposit_def updateBalance_def
      insertTransactionRow_def orderByDescCreatedAt_def)

theorem fundAccount_newBalance_witness:
  "fundAccountSchema (deposit Card None (Fin (103 / 4)))
   \<and> others (oneAccountWorld (Fin (201 / 2))) = []
   \<and> isDouble (201 / 2 + 103 / 4)
   \<and> map_sum id newBalance
        (fst (fundAccountProcedure 7 (deposit Card None (Fin (103 / 4))) (oneAccountWorld (Fin (201 / 2)))))
      = Inr (Fin (505 / 4))
   \<and> map balance
        (accounts (db (snd (fundAccountProcedure 7 (deposit Card None (Fin (103 / 4)))
                             (oneAccountWorld (Fin (201 / 2)))))))
      = [Fin (505 / 4)]"
proof -
  let ?input = "deposit Card None (Fin (103 / 4))"
  let ?w = "oneAccountWorld (Fin (201 / 2))"
  let ?acc = "\<lparr>accId = 1, userId = 7, accountNumber = ''1234567890'',
               accountType = ''checking'', balance = Fin (201 / 2), status = ''active''\<rparr>"
  have schema: "fundAccountSchema ?input"
    by (simp add: fundAccountSchema_def deposit_def)
  have alone: "others ?w = []"
    by (simp add: oneAccountWorld_def exampleWorld_def)
  have found: "get (filter (\<lambda>a. accId a = inAccountId ?input \<and> userId a = 7) (accounts (db ?w)))
                 = Some ?acc"
    by (simp add: oneAccountWorld_def exampleWorld_def exampleStore_def deposit_def get_def)
  have active: "status ?acc = ''active''" by simp
  have "(201 / 2 + 103 / 4 :: rat) = of_int 505 * pow2 (- 2)"
    by (simp add: pow2_def)
  then have dbl: "isDouble (201 / 2 + 103 / 4)"
    unfolding isDouble_def by (intro exI [of _ 505] exI [of _ "- 2"]) simp
  from fundAccount_newBalance [OF schema alone found active] obtain r w'
    where run: "fundAccountProcedure 7 ?input ?w = (Inr r, w')"
      and exact: "\<forall>x y. balance ?acc = Fin x \<and> inAmount ?input = Fin y \<and> isDouble (x + y)
                    \<longrightarrow> newBalance r = Fin (x + y)"
    by blast
  have "balance ?acc = Fin (201 / 2) \<and> inAmount ?input = Fin (103 / 4) \<and> isDouble (201 / 2 + 103 / 4)
          \<longrightarrow> newBalance r = Fin (201 / 2 + 103 / 4)"
    using exact by blast
  then have sum: "newBalance r = Fin (505 / 4)"
    using dbl by (simp add: deposit_def)
  have res: "map_sum id newBalance (fst (fundAccountProcedure 7 ?input ?w)) = Inr (Fin (505 / 4))"
    using run sum by simp
  have eq: "fundAccountProcedure 7 ?input ?w = fundAccount 7 ?input ?w"
    using schema by (simp add: fundAccountProcedure_def)
  have "Inr (numAdd (Fin (201 / 2)) (Fin (103 / 4))) = (Inr (Fin (505 / 4)) :: failure + number)"
    using res fundAccount_oneAccountWorld [of Card None "Fin (103 / 4)" "Fin (201 / 2)"]
    unfolding eq by (simp only:)
  then have "numAdd (Fin (201 / 2)) (Fin (103 / 4)) = Fin (505 / 4)"
    by (simp only: sum.inject)
  then have accs: "map balance (accounts (db (snd (fundAccountProcedure 7 ?input ?w)))) = [Fin (505 / 4)]"
    using fundAccount_oneAccountWorld [of Card None "Fin (103 / 4)" "Fin (201 / 2)"]
    unfolding eq by (simp only:)
  from schema alone dbl res accs show ?thesis by blast
qed

text \<open>
  C2, as stated, fails: with the numbers nearest to 0.1 (the balance) and
  to 0.2 (the amount), the new balance is not the exact sum of the two.
\<close>

theorem fundAccount_sum_not_exact:
  "round64 (1 / 10) = Fin (3602879701896397 / 36028797018963968)
   \<and> round64 (2 / 10) = Fin (3602879701896397 / 18014398509481984)
   \<and> fundAccountSchema (deposit Card None (Fin (3602879701896397 / 18014398509481984)))
   \<and> map_sum id newBalance
        (fst (fundAccountProcedure 7
               (deposit Card None (Fin (3602879701896397 / 18014398509481984)))
               (oneAccountWorld (Fin (3602879701896397 / 36028797018963968)))))
      = Inr (Fin (1351079888211149 / 4503599627370496))
   \<and> exactSum (Fin (3602879701896397 / 36028797018963968))
               (Fin (3602879701896397 / 18014398509481984))
      = Fin (10808639105689191 / 36028797018963968)
   \<and> Fin (1351079888211149 / 4503599627370496) \<noteq> Fin (10808639105689191 / 36028797018963968)"
proof -
  let ?a = "3602879701896397 / 36028797018963968 :: rat"
  let ?b = "3602879701896397 / 18014398509481984 :: rat"
  have a: "round64 (1 / 10) = Fin ?a" by code_simp
  have b: "round64 (2 / 10) = Fin ?b" by code_simp
  have schema: "fundAccountSchema (deposit Card None (Fin ?b))"
    by (simp add: fundAccountSchema_def deposit_def)
  have add: "numAdd (Fin ?a) (Fin ?b) = Fin (1351079888211149 / 4503599627370496)"
    by code_simp
  have run: "map_sum id newBalance
        (fst (fundAccountProcedure 7 (deposit Card None (Fin ?b)) (oneAccountWorld (Fin ?a))))
      = Inr (Fin (1351079888211149 / 4503599627370496))"
    using schema fundAccount_oneAccountWorld [of Card None "Fin ?b" "Fin ?a"]
    by (simp only: fundAccountProcedure_def if_True add)
  have ex: "exactSum (Fin ?a) (Fin ?b) = Fin (10808639105689191 / 36028797018963968)"
    by simp
  have ne: "Fin (1351079888211149 / 4503599627370496) \<noteq> Fin (10808639105689191 / 36028797018963968)"
    by simp
  from a b schema run ex ne show ?thesis by blast
qed

section \<open>Properties of fundAccount: failures\<close>

lemma fundAccount_not_found:
  assumes "get (filter (\<lambda>a. accId a = inAccountId input \<and> userId a = uid)
                  (accounts (db (await SelectAccounts w)))) = None"
  shows "fundAccount uid input w
           = (Inl (TRPCError NOT_FOUND ''Account not found''), await SelectAccounts w)"
  using assms by (simp add: fundAccount_def Let_def selectAccounts_def)

lemma fundAccount_not_active:
  assumes "get (filter (\<lambda>a. accId a = inAccountId input \<and> userId a = uid)
                  (accounts (db (await SelectAccounts w)))) = Some acc"
    and "status acc \<noteq> ''active''"
  shows "fundAccount uid input w
           = (Inl (TRPCError BAD_REQUEST ''Account is not active''), await SelectAccounts w)"
  using assms by (simp add: fundAccount_def Let_def selectAccounts_def)

lemma fundAccount_active:
  assumes "get (filter (\<lambda>a. accId a = inAccountId input \<and> userId a = uid)
                  (accounts (db (await SelectAccounts w)))) = Some acc"
    and "status acc = ''active''"
  shows "\<not> isl (fst (fundAccount uid input w))"
  using assms by (simp add: fundAccount_def Let_def case_prod_beta selectAccounts_def)

text \<open>
  C4: a call for an account that the user does not own fails with \<open>NOT_FOUND\<close>, a call for
  an account of the user that is not active fails with \<open>BAD_REQUEST\<close>; and whenever the
  mutation fails, the one statement it has sent is the select of the account, so that no
  transaction is inserted and no balance written: with nobody else at work the database
  is as it was. The procedure is the mutation for an input that the schema accepts, and
  sends no statement at all for one that the schema refuses.
\<close>

theorem fundAccount_fails_fast:
  assumes run: "fundAccount uid input w = (res, w')"
  shows "(get (filter (\<lambda>a. accId a = inAccountId input \<and> userId a = uid)
                 (accounts (db (await SelectAccounts w)))) = None
            \<longrightarrow> res = Inl (TRPCError NOT_FOUND ''Account not found''))
         \<and> (\<forall>acc. get (filter (\<lambda>a. accId a = inAccountId input \<and> userId a = uid)
                        (accounts (db (await SelectAccounts w)))) = Some acc
                   \<and> status acc \<noteq> ''active''
                \<longrightarrow> res = Inl (TRPCError BAD_REQUEST ''Account is not active''))
         \<and> (isl res \<longrightarrow> queries w' = queries w @ [SelectAccounts]
                         \<and> w' = await SelectAccounts w
                         \<and> (others w = [] \<longrightarrow> db w' = db w))
         \<and> (fundAccountSchema input \<longrightarrow> fundAccountProcedure uid input w = (res, w'))
         \<and> (\<not> fundAccountSchema input
               \<longrightarrow> isl (fst (fundAccountProcedure uid input w))
                   \<and> snd (fundAccountProcedure uid input w) = w)"
proof -
  let ?look = "get (filter (\<lambda>a. accId a = inAccountId input \<and> userId a = uid)
                      (accounts (db (await SelectAccounts w))))"
  have nf: "res = Inl (TRPCError NOT_FOUND ''Account not found'')" if "?look = None"
    using run fundAccount_not_found [OF that] by simp
  have br: "res = Inl (TRPCError BAD_REQUEST ''Account is not active'')"
    if "?look = Some acc" "status acc \<noteq> ''active''" for acc
    using run fundAccount_not_active [OF that] by simp
  have fail: "w' = await SelectAccounts w" if "isl res"
  proof (cases ?look)
    case None
    then show ?thesis using run fundAccount_not_found [of input uid w] by simp
  next
    case (Some acc)
    show ?thesis
    proof (cases "status acc = ''active''")
      case True
      from fundAccount_active [OF Some True] run that show ?thesis by simp
    next
      case False
      from fundAccount_not_active [OF Some False] run show ?thesis by simp
    qed
  qed
  have quiet: "queries w' = queries w @ [SelectAccounts] \<and> w' = await SelectAccounts w
        \<and> (others w = [] \<longrightarrow> db w' = db w)" if "isl res"
    using fail [OF that] by (simp add: queries_await db_await_alone)
  have proc: "fundAccountProcedure uid input w = (res, w')" if "fundAccountSchema input"
    using that run by (simp add: fundAccountProcedure_def)
  have refused: "isl (fst (fundAccountProcedure uid input w))
                 \<and> snd (fundAccountProcedure uid input w) = w" if "\<not> fundAccountSchema input"
    using that by (simp add: fundAccountProcedure_def)
  from nf br quiet proc refused show ?thesis by blast
qed

theorem fundAccount_fails_fast_witness:
  "fundAccountSchema (deposit Card None (Fin 50))
   \<and> fundAccountProcedure 8 (deposit Card None (Fin 50)) (oneAccountWorld (Fin 100))
       = (Inl (TRPCError NOT_FOUND ''Account not found''),
          (oneAccountWorld (Fin 100))\<lparr>queries := [SelectAccounts]\<rparr>)
   \<and> fundAccountProcedure 7 (deposit Card None (Fin 50)) (exampleWorld ''closed'' (Fin 100) [] [])
       = (Inl (TRPCError BAD_REQUEST ''Account is not active''),
          (exampleWorld ''closed'' (Fin 100) [] [])\<lparr>queries := [SelectAccounts]\<rparr>)
   \<and> \<not> fundAccountSchema (deposit Card None (Fin 0))
   \<and> isl (fst (fundAccountProcedure 7 (deposit Card None (Fin 0)) (oneAccountWorld (Fin 100))))
   \<and> snd (fundAccountProcedure 7 (deposit Card None (Fin 0)) (oneAccountWorld (Fin 100)))
       = oneAccountWorld (Fin 100)"
proof -
  let ?input = "deposit Card None (Fin 50)"
  let ?zero = "deposit Card None (Fin 0)"
  let ?w = "oneAccountWorld (Fin 100)"
  let ?c = "exampleWorld ''closed'' (Fin 100) [] []"
  let ?acc = "\<lparr>accId = 1, userId = 7, accountNumber = ''1234567890'',
               accountType = ''checking'', balance = Fin 100, status = ''closed''\<rparr>"
  obtain res w' where run: "fundAccount 8 ?input ?w = (res, w')"
    by (cases "fundAccount 8 ?input ?w")
  obtain res2 w2 where run2: "fundAccount 7 ?input ?c = (res2, w2)"
    by (cases "fundAccount 7 ?input ?c")
  obtain res3 w3 where run3: "fundAccount 7 ?zero ?w = (res3, w3)"
    by (cases "fundAccount 7 ?zero ?w")
  have schema: "fundAccountSchema ?input"
    by (simp add: fundAccountSchema_def deposit_def)
  have refused: "\<not> fundAccountSchema ?zero"
    by (simp add: fundAccountSchema_def deposit_def)
  have aw: "await SelectAccounts ?w = ?w\<lparr>queries := [SelectAccounts]\<rparr>"
    by (simp add: await_def oneAccountWorld_def exampleWorld_def)
  have aw2: "await SelectAccounts ?c = ?c\<lparr>queries := [SelectAccounts]\<rparr>"
    by (simp add: await_def exampleWorld_def)
  have none: "get (filter (\<lambda>a. accId a = inAccountId ?input \<and> userId a = 8)
                     (accounts (db (await SelectAccounts ?w)))) = None"
    unfolding aw by (simp add: oneAccountWorld_def exampleWorld_def exampleStore_def get_def)
  have some: "get (filter (\<lambda>a. accId a = inAccountId ?input \<and> userId a = 7)
                     (accounts (db (await SelectAccounts ?c)))) = Some ?acc"
    unfolding aw2 by (simp add: exampleWorld_def exampleStore_def get_def deposit_def)
  note t1 = fundAccount_fails_fast [OF run]
  have r1: "res = Inl (TRPCError NOT_FOUND ''Account not found'')"
    by (rule t1 [THEN conjunct1, THEN mp, OF none])
  have "isl res" unfolding r1 by simp
  with t1 [THEN conjunct2, THEN conjunct2, THEN conjunct1] have "w' = await SelectAccounts ?w"
    by blast
  moreover have "fundAccountProcedure 8 ?input ?w = (res, w')"
    by (rule t1 [THEN conjunct2, THEN conjunct2, THEN conjunct2, THEN conjunct1, THEN mp, OF schema])
  ultimately have one: "fundAccountProcedure 8 ?input ?w
       = (Inl (TRPCError NOT_FOUND ''Account not found''), ?w\<lparr>queries := [SelectAccounts]\<rparr>)"
    unfolding r1 aw by (simp only:)
  note t2 = fundAccount_fails_fast [OF run2]
  have na: "status ?acc \<noteq> ''active''" by simp
  have r2: "res2 = Inl (TRPCError BAD_REQUEST ''Account is not active'')"
    by (rule t2 [THEN conjunct2, THEN conjunct1, THEN spec, THEN mp, OF conjI [OF some na]])
  have "isl res2" unfolding r2 by simp
  with t2 [THEN conjunct2, THEN conjunct2, THEN conjunct1] have "w2 = await SelectAccounts ?c"
    by blast
  moreover have "fundAccountProcedure 7 ?input ?c = (res2, w2)"
    by (rule t2 [THEN conjunct2, THEN conjunct2, THEN conjunct2, THEN conjunct1, THEN mp, OF schema])
  ultimately have two: "fundAccountProcedure 7 ?input ?c
       = (Inl (TRPCError BAD_REQUEST ''Account is not active''), ?c\<lparr>queries := [SelectAccounts]\<rparr>)"
    unfolding r2 aw2 by (simp only:)
  note t3 = fundAccount_fails_fast [OF run3]
  have three: "isl (fst (fundAccountProcedure 7 ?zero ?w))
               \<and> snd (fundAccountProcedure 7 ?zero ?w) = ?w"
    by (rule t3 [THEN conjunct2, THEN conjunct2, THEN conjunct2, THEN conjunct2, THEN mp,
          OF refused])
  from schema one two refused three show ?thesis by blast
qed

section \<open>Properties of getTransactions\<close>

lemma sorted_orderByDescCreatedAt:
  "sorted_wrt (\<lambda>s t. createdAt t \<le> createdAt s) (orderByDescCreatedAt rows)"
proof -
  have "sorted (map (\<lambda>t. - int (createdAt t)) (orderByDescCreatedAt rows))"
    unfolding orderByDescCreatedAt_def by (rule sorted_sort_key)
  then show ?thesis
    by (simp add: sorted_map)
qed

lemma mset_orderByDescCreatedAt: "mset (orderByDescCreatedAt rows) = mset rows"
  by (simp add: orderByDescCreatedAt_def)

lemma truncate_extend: "transaction.truncate (transaction.extend t m) = t"
  by (simp add: transaction.truncate_def transaction.extend_def)

lemma createdAt_extend: "createdAt (transaction.extend t m) = createdAt t"
  by (simp add: transaction.extend_def)

lemma enrichedAccountType_extend:
  "enrichedAccountType (transaction.extend t (enrichedTransaction.fields ty)) = ty"
  by (simp add: transaction.extend_def enrichedTransaction.fields_def)

text \<open>
  C5: for an account that the select of the ownership check finds, \<open>getTransactions\<close>
  returns the transactions of that account that the table holds (each once, with its
  fields), by decreasing \<open>createdAt\<close>, each with the \<open>accountType\<close> of the account found;
  and it sends two statements whatever the number of transactions: the select of the
  account and the select of the transactions.
\<close>

theorem getTransactions_sorted_enriched:
  assumes found: "get (filter (\<lambda>a. accId a = aid \<and> userId a = uid)
                         (accounts (db (await SelectAccounts w)))) = Some acc"
  shows "\<exists>ts w'. getTransactions uid aid w = (Inr ts, w')
           \<and> mset (map transaction.truncate ts)
               = mset (filter (\<lambda>t. accountId t = aid) (transactions (db w')))
           \<and> sorted_wrt (\<lambda>s t. createdAt t \<le> createdAt s) ts
           \<and> list_all (\<lambda>t. enrichedAccountType t = accountType acc) ts
           \<and> queries w' = queries w @ [SelectAccounts, SelectTransactions]
           \<and> (others w = [] \<longrightarrow> db w' = db w)"
proof -
  define w1 where "w1 = await SelectAccounts w"
  define w2 where "w2 = await SelectTransactions w1"
  define rows where "rows = orderByDescCreatedAt (filter (\<lambda>t. accountId t = aid) (transactions (db w2)))"
  define ts where
    "ts = map (\<lambda>t. transaction.extend t (enrichedTransaction.fields (accountType acc))) rows"
  have run: "getTransactions uid aid w = (Inr ts, w2)"
    using found
    by (simp add: getTransactions_def Let_def selectAccounts_def selectTransactions_def
        w1_def w2_def rows_def ts_def)
  have trunc: "map transaction.truncate ts = rows"
    by (simp add: ts_def truncate_extend comp_def)
  have all: "mset (map transaction.truncate ts)
               = mset (filter (\<lambda>t. accountId t = aid) (transactions (db w2)))"
    unfolding trunc rows_def by (rule mset_orderByDescCreatedAt)
  have "sorted_wrt (\<lambda>s t. createdAt t \<le> createdAt s) rows"
    unfolding rows_def by (rule sorted_orderByDescCreatedAt)
  then have sorted: "sorted_wrt (\<lambda>s t. createdAt t \<le> createdAt s) ts"
    by (simp add: ts_def sorted_wrt_map createdAt_extend)
  have enriched: "list_all (\<lambda>t. enrichedAccountType t = accountType acc) ts"
    by (simp add: ts_def list_all_iff enrichedAccountType_extend)
  have log: "queries w2 = queries w @ [SelectAccounts, SelectTransactions]"
    by (simp add: w2_def w1_def queries_await)
  have same: "db w2 = db w" if "others w = []"
    using that by (simp add: w2_def w1_def db_await_alone others_await_alone)
  from run all sorted enriched log same show ?thesis by blast
qed

theorem getTransactions_sorted_enriched_witness:
  "getTransactions 7 1
     (exampleWorld ''active'' (Fin 30)
        [exampleTransaction 1 1 10, exampleTransaction 2 2 11, exampleTransaction 3 1 12,
         exampleTransaction 4 1 9] [])
   = (Inr [transaction.extend (exampleTransaction 3 1 12) (enrichedTransaction.fields ''checking''),
           transaction.extend (exampleTransaction 1 1 10) (enrichedTransaction.fields ''checking''),
           transaction.extend (exampleTransaction 4 1 9) (enrichedTransaction.fields ''checking'')],
      (exampleWorld ''active'' (Fin 30)
        [exampleTransaction 1 1 10, exampleTransaction 2 2 11, exampleTransaction 3 1 12,
         exampleTransaction 4 1 9] [])\<lparr>queries := [SelectAccounts, SelectTransactions]\<rparr>)"
proof -
  let ?txs = "[exampleTransaction 1 1 10, exampleTransaction 2 2 11, exampleTransaction 3 1 12,
               exampleTransaction 4 1 9]"
  let ?w = "exampleWorld ''active'' (Fin 30) ?txs []"
  let ?acc = "\<lparr>accId = 1, userId = 7, accountNumber = ''1234567890'',
               accountType = ''checking'', balance = Fin 30, status = ''active''\<rparr>"
  have found: "get (filter (\<lambda>a. accId a = 1 \<and> userId a = 7)
                     (accounts (db (await SelectAccounts ?w)))) = Some ?acc"
    by (simp add: await_def exampleWorld_def exampleStore_def get_def)
  from getTransactions_sorted_enriched [OF found] obtain ts w'
    where run: "getTransactions 7 1 ?w = (Inr ts, w')"
    by blast
  have "getTransactions 7 1 ?w
          = (Inr [transaction.extend (exampleTransaction 3 1 12) (enrichedTransaction.fields ''checking''),
                  transaction.extend (exampleTransaction 1 1 10) (enrichedTransaction.fields ''checking''),
                  transaction.extend (exampleTransaction 4 1 9) (enrichedTransaction.fields ''checking'')],
             ?w\<lparr>queries := [SelectAccounts, SelectTransactions]\<rparr>)"
    by (simp add: getTransactions_def Let_def selectAccounts_def selectTransactions_def
        await_def exampleWorld_def exampleStore_def get_def orderByDescCreatedAt_def
        exampleTransaction_def)
  with run show ?thesis by simp
qed

section \<open>Properties of createAccount\<close>

lemma selectAccounts_subset: "set (fst (selectAccounts cond w)) \<subseteq> set (accounts (db (snd (selectAccounts cond w))))"
  by (simp add: selectAccounts_def Let_def)

lemma insertAndFetch_Inr:
  assumes "insertAndFetch uid ty n w = (Inr a, w')"
  shows "a \<in> set (accounts (db w')) \<and> accountNumber a = n"
proof -
  obtain r w1 where ins: "insertAccount uid n (accountTypeName ty) (Fin 0) ''active'' w = (r, w1)"
    by (cases "insertAccount uid n (accountTypeName ty) (Fin 0) ''active'' w")
  show ?thesis
  proof (cases r)
    case (Inl e)
    with assms ins show ?thesis by (simp add: insertAndFetch_def)
  next
    case (Inr u)
    let ?rows = "filter (\<lambda>a. accountNumber a = n) (accounts (db (await SelectAccounts w1)))"
    from assms ins Inr have "get ?rows = Some a" and "w' = await SelectAccounts w1"
      by (auto simp: insertAndFetch_def selectAccounts_def Let_def split: option.splits)
    then show ?thesis
      by (auto dest: get_Some_mem)
  qed
qed

lemma uniqueLoop_candidate:
  "uniqueLoop hashes w = (Some n, rest, w') \<Longrightarrow> n \<in> set (map accountNumberOf hashes)"
proof (induction hashes arbitrary: w)
  case Nil
  then show ?case by simp
next
  case (Cons h hs)
  then show ?case
    by (auto simp: Let_def case_prod_beta split: if_splits)
qed

lemma createAccount_run:
  assumes free: "get (fst (selectAccounts (\<lambda>a. userId a = uid \<and> accountType a = accountTypeName ty) w))
                   = None"
    and loop: "uniqueLoop hashes
                 (snd (selectAccounts (\<lambda>a. userId a = uid \<and> accountType a = accountTypeName ty) w))
                 = (Some n, rest, w2)"
  shows "createAccount uid ty hashes w
           = (Some (fst (insertAndFetch uid ty n w2)), snd (insertAndFetch uid ty n w2))"
  using free loop by (simp add: createAccount_def Let_def case_prod_beta)

text \<open>
  C3: when the insert went through and the fetch after it finds no row with the new
  account number, \<open>createAccount\<close> throws \<open>INTERNAL_SERVER_ERROR\<close>; and an account that
  \<open>createAccount\<close> returns is always a row that the fetch read from the table, with a
  number made from one of the hashes, never an object made up in its place.
\<close>

theorem createAccount_failed_fetch:
  assumes free: "get (fst (selectAccounts (\<lambda>a. userId a = uid \<and> accountType a = accountTypeName ty) w))
                   = None"
    and loop: "uniqueLoop hashes
                 (snd (selectAccounts (\<lambda>a. userId a = uid \<and> accountType a = accountTypeName ty) w))
                 = (Some n, rest, w2)"
    and ins: "insertAccount uid n (accountTypeName ty) (Fin 0) ''active'' w2 = (Inr u, w3)"
    and fetch: "get (fst (selectAccounts (\<lambda>a. accountNumber a = n) w3)) = None"
  shows "fst (createAccount uid ty hashes w)
           = Some (Inl (TRPCError INTERNAL_SERVER_ERROR ''Failed to create account''))
         \<and> (\<forall>uid' ty' hashes' v a v'. createAccount uid' ty' hashes' v = (Some (Inr a), v')
               \<longrightarrow> a \<in> set (accounts (db v')) \<and> accountNumber a \<in> set (map accountNumberOf hashes'))"
proof -
  have "fst (insertAndFetch uid ty n w2)
          = Inl (TRPCError INTERNAL_SERVER_ERROR ''Failed to create account'')"
    using ins fetch by (simp add: insertAndFetch_def Let_def case_prod_beta)
  then have internal: "fst (createAccount uid ty hashes w)
           = Some (Inl (TRPCError INTERNAL_SERVER_ERROR ''Failed to create account''))"
    unfolding createAccount_run [OF free loop] by simp
  have stored: "a \<in> set (accounts (db v')) \<and> accountNumber a \<in> set (map accountNumberOf hashes')"
    if run: "createAccount uid' ty' hashes' v = (Some (Inr a), v')" for uid' ty' hashes' v a v'
  proof -
    let ?sel = "selectAccounts (\<lambda>a. userId a = uid' \<and> accountType a = accountTypeName ty') v"
    have free': "get (fst ?sel) = None"
      using run by (auto simp: createAccount_def Let_def case_prod_beta split: if_splits)
    obtain c rest' v2 where loop': "uniqueLoop hashes' (snd ?sel) = (c, rest', v2)"
      by (cases "uniqueLoop hashes' (snd ?sel)")
    from run free' loop' obtain m where c: "c = Some m"
      by (cases c) (auto simp: createAccount_def Let_def case_prod_beta)
    from run have "insertAndFetch uid' ty' m v2 = (Inr a, v')"
      unfolding createAccount_run [OF free' loop' [unfolded c]]
      by (cases "insertAndFetch uid' ty' m v2") simp
    from insertAndFetch_Inr [OF this] uniqueLoop_candidate [OF loop' [unfolded c]]
    show ?thesis by simp
  qed
  from internal stored show ?thesis by blast
qed

theorem createAccount_failed_fetch_witness:
  "fst (createAccount 7 Savings [''$2a$10$abcdef9876543210'']
          (exampleWorld ''active'' (Fin 0) [] [id, id, id, dbClear]))
     = Some (Inl (TRPCError INTERNAL_SERVER_ERROR ''Failed to create account''))
   \<and> queries (snd (createAccount 7 Savings [''$2a$10$abcdef9876543210'']
                      (exampleWorld ''active'' (Fin 0) [] [id, id, id, dbClear])))
     = [SelectAccounts, SelectAccounts, InsertAccount, SelectAccounts]"
proof -
  let ?w = "exampleWorld ''active'' (Fin 0) [] [id, id, id, dbClear]"
  let ?w1 = "\<lparr>db = exampleStore ''active'' (Fin 0) [], others = [id, id, dbClear],
              queries = [SelectAccounts]\<rparr>"
  let ?w2 = "\<lparr>db = exampleStore ''active'' (Fin 0) [], others = [id, dbClear],
              queries = [SelectAccounts, SelectAccounts]\<rparr>"
  let ?s3 = "(exampleStore ''active'' (Fin 0) [])
               \<lparr>accounts := accounts (exampleStore ''active'' (Fin 0) []) @
                  [\<lparr>accId = 2, userId = 7, accountNumber = ''2109876543'',
                    accountType = ''savings'', balance = Fin 0, status = ''active''\<rparr>],
                nextAccountId := 3\<rparr>"
  let ?w3 = "\<lparr>db = ?s3, others = [dbClear],
              queries = [SelectAccounts, SelectAccounts, InsertAccount]\<rparr>"
  have num: "accountNumberOf ''$2a$10$abcdef9876543210'' = ''2109876543''"
    by (simp add: accountNumberOf_def isDigit_def digit_def)
  have sel: "selectAccounts (\<lambda>a. userId a = 7 \<and> accountType a = accountTypeName Savings) ?w
               = ([], ?w1)"
    by (simp add: selectAccounts_def await_def exampleWorld_def exampleStore_def)
  have free: "get (fst (selectAccounts (\<lambda>a. userId a = 7 \<and> accountType a = accountTypeName Savings) ?w))
                = None"
    unfolding sel by (simp add: get_def)
  have loop: "uniqueLoop [''$2a$10$abcdef9876543210'']
                (snd (selectAccounts (\<lambda>a. userId a = 7 \<and> accountType a = accountTypeName Savings) ?w))
                = (Some ''2109876543'', [], ?w2)"
    unfolding sel by (simp add: num Let_def selectAccounts_def await_def exampleStore_def get_def)
  have ins: "insertAccount 7 ''2109876543'' (accountTypeName Savings) (Fin 0) ''active'' ?w2
               = (Inr (), ?w3)"
    by (simp add: insertAccount_def await_def insertAccountRow_def exampleStore_def)
  have fetch: "get (fst (selectAccounts (\<lambda>a. accountNumber a = ''2109876543'') ?w3)) = None"
    by (simp add: selectAccounts_def await_def dbClear_def get_def)
  have res: "fst (createAccount 7 Savings [''$2a$10$abcdef9876543210''] ?w)
               = Some (Inl (TRPCError INTERNAL_SERVER_ERROR ''Failed to create account''))"
    using createAccount_failed_fetch [OF free loop ins fetch] by (rule conjunct1)
  have log: "queries (snd (createAccount 7 Savings [''$2a$10$abcdef9876543210''] ?w))
               = [SelectAccounts, SelectAccounts, InsertAccount, SelectAccounts]"
    unfolding createAccount_run [OF free loop]
    by (simp add: insertAndFetch_def ins [unfolded accountTypeName.simps] Let_def
        selectAccounts_def await_def dbClear_def get_def)
  from res log show ?thesis by blast
qed

text \<open>
  C9, as the code has it. The loop goes on to the next candidate when the select finds
  the candidate in the table; the insert comes once, after the loop, and when the
  database refuses it the error leaves \<open>createAccount\<close> with no further statement sent:
  nothing catches it and no other candidate is tried.
\<close>

theorem createAccount_insert_refused:
  assumes free: "get (fst (selectAccounts (\<lambda>a. userId a = uid \<and> accountType a = accountTypeName ty) w))
                   = None"
    and loop: "uniqueLoop hashes
                 (snd (selectAccounts (\<lambda>a. userId a = uid \<and> accountType a = accountTypeName ty) w))
                 = (Some n, rest, w2)"
    and ins: "insertAccount uid n (accountTypeName ty) (Fin 0) ''active'' w2 = (Inl e, w3)"
  shows "createAccount uid ty hashes w = (Some (Inl (SqliteError e)), w3)
         \<and> queries w3 = queries w2 @ [InsertAccount]
         \<and> (\<forall>h hs v. get (fst (selectAccounts (\<lambda>a. accountNumber a = accountNumberOf h) v)) \<noteq> None
               \<longrightarrow> uniqueLoop (h # hs) v
                     = uniqueLoop hs (snd (selectAccounts (\<lambda>a. accountNumber a = accountNumberOf h) v)))"
proof -
  have "insertAndFetch uid ty n w2 = (Inl (SqliteError e), w3)"
    using ins by (simp add: insertAndFetch_def)
  then have run: "createAccount uid ty hashes w = (Some (Inl (SqliteError e)), w3)"
    unfolding createAccount_run [OF free loop] by simp
  have "w3 = await InsertAccount w2"
    using ins by (auto simp: insertAccount_def Let_def split: sum.splits)
  then have log: "queries w3 = queries w2 @ [InsertAccount]"
    by (simp add: queries_await)
  have retry: "uniqueLoop (h # hs) v
                 = uniqueLoop hs (snd (selectAccounts (\<lambda>a. accountNumber a = accountNumberOf h) v))"
    if "get (fst (selectAccounts (\<lambda>a. accountNumber a = accountNumberOf h) v)) \<noteq> None" for h hs v
    using that by (auto simp: Let_def case_prod_beta)
  from run log retry show ?thesis by blast
qed

theorem createAccount_insert_refused_witness:
  "createAccount 7 Savings [''$2a$10$abcdef9876543210'', ''$2a$10$abcdef1122334455'']
     (exampleWorld ''active'' (Fin 0) [] [id, id, otherCreatesAccount 8 ''2109876543'' ''checking''])
   = (Some (Inl (SqliteError ''UNIQUE constraint failed: accounts.account_number'')),
      \<lparr>db = otherCreatesAccount 8 ''2109876543'' ''checking'' (exampleStore ''active'' (Fin 0) []),
       others = [], queries = [SelectAccounts, SelectAccounts, InsertAccount]\<rparr>)"
proof -
  let ?race = "otherCreatesAccount 8 ''2109876543'' ''checking''"
  let ?w = "exampleWorld ''active'' (Fin 0) [] [id, id, ?race]"
  let ?w1 = "\<lparr>db = exampleStore ''active'' (Fin 0) [], others = [id, ?race],
              queries = [SelectAccounts]\<rparr>"
  let ?w2 = "\<lparr>db = exampleStore ''active'' (Fin 0) [], others = [?race],
              queries = [SelectAccounts, SelectAccounts]\<rparr>"
  let ?w3 = "\<lparr>db = ?race (exampleStore ''active'' (Fin 0) []), others = [],
              queries = [SelectAccounts, SelectAccounts, InsertAccount]\<rparr>"
  have num: "accountNumberOf ''$2a$10$abcdef9876543210'' = ''2109876543''"
    by (simp add: accountNumberOf_def isDigit_def digit_def)
  have sel: "selectAccounts (\<lambda>a. userId a = 7 \<and> accountType a = accountTypeName Savings) ?w
               = ([], ?w1)"
    by (simp add: selectAccounts_def await_def exampleWorld_def exampleStore_def)
  have free: "get (fst (selectAccounts (\<lambda>a. userId a = 7 \<and> accountType a = accountTypeName Savings) ?w))
                = None"
    unfolding sel by (simp add: get_def)
  have loop: "uniqueLoop [''$2a$10$abcdef9876543210'', ''$2a$10$abcdef1122334455'']
                (snd (selectAccounts (\<lambda>a. userId a = 7 \<and> accountType a = accountTypeName Savings) ?w))
                = (Some ''2109876543'', [''$2a$10$abcdef1122334455''], ?w2)"
    unfolding sel by (simp add: num Let_def selectAccounts_def await_def exampleStore_def get_def)
  have ins: "insertAccount 7 ''2109876543'' (accountTypeName Savings) (Fin 0) ''active'' ?w2
               = (Inl ''UNIQUE constraint failed: accounts.account_number'', ?w3)"
    by (simp add: insertAccount_def await_def insertAccountRow_def otherCreatesAccount_def
        exampleStore_def)
  show ?thesis
    using createAccount_insert_refused [OF free loop ins] by (rule conjunct1)
qed

text \<open>
  C9, as stated, fails. Another request inserts the account number
  2109876543 after this request has checked it and before this request inserts it: the
  insert of this request is refused, \<open>createAccount\<close> ends with the error of the
  database after one round of the loop, and the second candidate, 2101122334, which no
  account has, is never tried.
\<close>

theorem createAccount_no_retry_after_insert:
  "fst (createAccount 7 Savings [''$2a$10$abcdef9876543210'', ''$2a$10$abcdef1122334455'']
          (exampleWorld ''active'' (Fin 0) [] [id, id, otherCreatesAccount 8 ''2109876543'' ''checking'']))
     = Some (Inl (SqliteError ''UNIQUE constraint failed: accounts.account_number''))
   \<and> queries (snd (createAccount 7 Savings
                      [''$2a$10$abcdef9876543210'', ''$2a$10$abcdef1122334455'']
                      (exampleWorld ''active'' (Fin 0) []
                         [id, id, otherCreatesAccount 8 ''2109876543'' ''checking''])))
     = [SelectAccounts, SelectAccounts, InsertAccount]
   \<and> accountNumberOf ''$2a$10$abcdef1122334455'' = ''2101122334''
   \<and> map accountNumber
        (accounts (db (snd (createAccount 7 Savings
                      [''$2a$10$abcdef9876543210'', ''$2a$10$abcdef1122334455'']
                      (exampleWorld ''active'' (Fin 0) []
                         [id, id, otherCreatesAccount 8 ''2109876543'' ''checking''])))))
     = [''1234567890'', ''2109876543'']"
  by (simp add: createAccount_def insertAndFetch_def Let_def selectAccounts_def insertAccount_def
      await_def exampleWorld_def exampleStore_def get_def accountNumberOf_def isDigit_def
      digit_def insertAccountRow_def otherCreatesAccount_def)

section \<open>Properties of the routing number field\<close>

lemma remainders_rep_Cls:
  "set (remainders (rep n (Cls cls)) s)
     = (if n \<le> length s \<and> list_all (\<lambda>c. c \<in> set cls) (take n s) then {drop n s} else {})"
proof (induction n arbitrary: s)
  case 0
  show ?case by simp
next
  case (Suc n)
  show ?case
  proof (cases s)
    case Nil
    then show ?thesis by simp
  next
    case (Cons c t)
    then show ?thesis by (simp add: Suc.IH)
  qed
qed

lemma testWhole_rep_digit:
  "testWhole (rep n (Cls digit)) s \<longleftrightarrow> length s = n \<and> list_all isDigit s"
proof -
  have "isDigit = (\<lambda>c. c \<in> set digit)"
    by (simp add: isDigit_def fun_eq_iff)
  then show ?thesis
    unfolding testWhole_def remainders_rep_Cls by auto
qed

text \<open>
  C6, as the code has it. In the funding form, for a bank transfer, the routing number
  is accepted exactly when it is given, has nine characters, all digits, and is not nine
  zeros; a missing or empty one is refused as required. The input schema of
  \<open>fundAccount\<close> on the server does not look at the routing number at all.
\<close>

theorem routingNumber_rules:
  "(routingNumberRules Bank value = None
      \<longleftrightarrow> (case value of
             None \<Rightarrow> False
           | Some v \<Rightarrow> length v = 9 \<and> list_all isDigit v \<and> v \<noteq> ''000000000''))
   \<and> (value = None \<or> value = Some []
        \<longrightarrow> routingNumberRules Bank value = Some ''Routing number is required for bank transfers'')
   \<and> fundAccountSchema (input\<lparr>inFundingSource := src\<rparr>) = fundAccountSchema input"
proof -
  have accepted: "routingNumberRules Bank value = None
      \<longleftrightarrow> (case value of
             None \<Rightarrow> False
           | Some v \<Rightarrow> length v = 9 \<and> list_all isDigit v \<and> v \<noteq> ''000000000'')"
  proof (cases "value")
    case None
    then show ?thesis
      by (simp add: routingNumberRules_def validateField_def)
  next
    case (Some v)
    show ?thesis
    proof (cases "v = []")
      case True
      with Some show ?thesis
        by (simp add: routingNumberRules_def validateField_def)
    next
      case False
      with Some show ?thesis
        by (auto simp: routingNumberRules_def validateField_def testWhole_rep_digit notAllZeros_def
            simp del: rep.simps)
    qed
  qed
  have missing: "routingNumberRules Bank value = Some ''Routing number is required for bank transfers''"
    if "value = None \<or> value = Some []"
    using that by (auto simp: routingNumberRules_def validateField_def)
  have server: "fundAccountSchema (input\<lparr>inFundingSource := src\<rparr>) = fundAccountSchema input"
    by (simp add: fundAccountSchema_def)
  from accepted missing server show ?thesis by blast
qed

theorem routingNumber_rules_witness:
  "routingNumberRules Bank None = Some ''Routing number is required for bank transfers''
   \<and> routingNumberRules Bank (Some ''12345678'') \<noteq> None
   \<and> routingNumberRules Bank (Some ''000000000'') \<noteq> None
   \<and> routingNumberRules Bank (Some ''021000021'') = None"
proof -
  have a: "routingNumberRules Bank None = Some ''Routing number is required for bank transfers''"
    using routingNumber_rules [of None] by simp
  have b: "routingNumberRules Bank (Some ''12345678'') \<noteq> None"
    using routingNumber_rules [of "Some ''12345678''"] by simp
  have c: "routingNumberRules Bank (Some ''000000000'') \<noteq> None"
    using routingNumber_rules [of "Some ''000000000''"] by simp
  have "list_all isDigit ''021000021''" by code_simp
  then have d: "routingNumberRules Bank (Some ''021000021'') = None"
    using routingNumber_rules [of "Some ''021000021''"] by simp
  from a b c d show ?thesis by blast
qed

text \<open>
  C6, as stated, fails on the server: \<open>fundAccount\<close> accepts a bank transfer
  with no routing number, and one with the routing number of nine zeros, and funds the
  account.
\<close>

theorem fundAccount_bank_without_routing:
  "map_sum id newBalance
     (fst (fundAccountProcedure 7 (deposit Bank None (Fin 50)) (oneAccountWorld (Fin 0))))
     = Inr (Fin 50)
   \<and> map_sum id newBalance
       (fst (fundAccountProcedure 7 (deposit Bank (Some ''000000000'') (Fin 50))
               (oneAccountWorld (Fin 0))))
     = Inr (Fin 50)"
proof -
  have add: "numAdd (Fin 0) (Fin 50) = Fin 50" by code_simp
  have schema: "fundAccountSchema (deposit Bank r (Fin 50))" for r
    by (simp add: fundAccountSchema_def deposit_def)
  have "map_sum id newBalance
          (fst (fundAccountProcedure 7 (deposit Bank r (Fin 50)) (oneAccountWorld (Fin 0))))
        = Inr (Fin 50)" for r
    using schema [of r] fundAccount_oneAccountWorld [of Bank r "Fin 50" "Fin 0"]
    by (simp only: fundAccountProcedure_def if_True add)
  then show ?thesis by blast
qed


end
